theory Spec2Isabelle
  imports Main
begin

section \<open>The tokenizer and the memory handler\<close>

text \<open>
  The tokenizer is an external collaborator (a Hugging Face \<^verbatim>\<open>AutoTokenizer\<close>): the
  development takes it as a pair of functions. \<^verbatim>\<open>encode(text)\<close> and
  \<^verbatim>\<open>encode(text, return_tensors="pt")\<close> give the same token ids, the second as a tensor
  of shape \<open>(1, n)\<close> whose \<^verbatim>\<open>size(dim=1)\<close> is the number of tokens; both are a list of
  Python integers here.
\<close>

record tokenizer =
  encode :: "string \<Rightarrow> int list"
  decode :: "int list \<Rightarrow> string"

text \<open>
  The exceptions the modelled code can raise. \<open>NarrowError\<close> is what \<^verbatim>\<open>torch.narrow\<close>
  raises on a range outside the tensor (an IndexError or a RuntimeError, depending on the
  version of torch), \<open>Base64Error\<close> is \<^verbatim>\<open>binascii.Error\<close>, and \<open>NotModelled\<close> marks an
  input on which a library function is not modelled.
\<close>

datatype error =
  IndexError | AttributeError | NarrowError | TypeError | ValueError
  | UnboundLocalError | JSONDecodeError | UnicodeDecodeError | Base64Error | NotModelled

text \<open>
  The data members of \<^verbatim>\<open>Memory_Handler\<close> that its methods read. \<open>max_length\<close> is one of
  the settings the settings handler insists on, so it is an integer here.
\<close>

record memory_handler =
  memory_cycler_type :: string
  extra_budget :: int
  device :: string
  max_length :: int
  prompt :: string
  prompt_tensor :: "int list"
  chat_history :: "string list"

text \<open>
  Attribute access \<^verbatim>\<open>self.name\<close> on the data members that hold an integer. A name
  that \<^verbatim>\<open>__init__\<close> never assigned raises AttributeError.
\<close>

definition getattr_int :: "memory_handler \<Rightarrow> string \<Rightarrow> error + int" where
  "getattr_int self name =
     (if name = ''extra_budget'' then Inr (extra_budget self)
      else if name = ''max_length'' then Inr (max_length self)
      else Inl AttributeError)"



text \<open>
  The constructor: \<^verbatim>\<open>load_netherworld_settings\<close> copies the cycler, the extra budget and
  the device from the settings, \<^verbatim>\<open>load_generation_settings\<close> copies \<open>max_length\<close> and the
  prompt, tokenizes the prompt and appends the prompt to the empty chat history.
\<close>

definition Memory_Handler :: "tokenizer \<Rightarrow> string \<Rightarrow> int \<Rightarrow> string \<Rightarrow> int \<Rightarrow> string \<Rightarrow> memory_handler" where
  "Memory_Handler a_tokenizer a_memory_cycler a_extra_budget a_device a_max_length a_prompt =
     \<lparr>memory_cycler_type = a_memory_cycler,
      extra_budget = a_extra_budget,
      device = a_device,
      max_length = a_max_length,
      prompt = a_prompt,
      prompt_tensor = encode a_tokenizer a_prompt,
      chat_history = [a_prompt]\<rparr>"

subsection \<open>Library operations the cyclers call\<close>

text \<open>
  \<^verbatim>\<open>torch.narrow(input, 1, start, length)\<close> on a tensor of shape \<open>(1, n)\<close>: the slice of
  \<open>length\<close> entries from \<open>start\<close>. It refuses a negative length, a start outside
  \<open>[-n, n]\<close> and a range that ends after the tensor; a negative start counts from the end.
\<close>

definition narrow :: "'a list \<Rightarrow> int \<Rightarrow> int \<Rightarrow> error + 'a list" where
  "narrow t start len =
     (let n = int (length t) in
      if len < 0 then Inl NarrowError
      else if \<not> (- n \<le> start \<and> start \<le> n) then Inl NarrowError
      else (let start' = (if start < 0 then start + n else start) in
            if start' > n - len then Inl NarrowError
            else Inr (take (nat len) (drop (nat start') t))))"

text \<open>
  Python's \<^verbatim>\<open>str.split(sep)\<close> for a separator of one character: every occurrence cuts,
  so the empty string gives one empty piece and a trailing separator a last empty piece.
\<close>

fun split :: "char \<Rightarrow> string \<Rightarrow> string list" where
  "split sep [] = [[]]"
| "split sep (c # cs) =
     (let r = split sep cs in
      if c = sep then [] # r else (c # hd r) # tl r)"

subsection \<open>The two memory cyclers\<close>

text \<open>
  Both cyclers mutate the list they are given and return it. A result \<open>Inr h\<close> is the
  list returned; \<open>Inl (e, h)\<close> is the exception raised and the list as the call left
  it. \<^verbatim>\<open>a_chat_history.pop(0)\<close> raises IndexError on an empty list.

  \<^verbatim>\<open>memory_cycle_by_token\<close>: the prompt is popped, the rest is joined and tokenized, the
  list is cleared, and only when the history and the prompt are over
  \<open>a_max_length - a_extra_budget\<close> is the narrowed tensor decoded and split into the
  cleared list. The call to \<^verbatim>\<open>logging.critical\<close> changes no data and is left out.
\<close>

definition memory_cycle_by_token ::
  "tokenizer \<Rightarrow> int \<Rightarrow> string list \<Rightarrow> int list \<Rightarrow> int \<Rightarrow> error \<times> string list + string list" where
  "memory_cycle_by_token a_tokenizer a_max_length a_chat_history a_prompt_tensor a_extra_budget =
     (case a_chat_history of
        [] \<Rightarrow> Inl (IndexError, [])
      | original_prompt # popped \<Rightarrow>
          (let chat_history_str = concat popped;
               chat_history_tensor = encode a_tokenizer chat_history_str;
               chat_history_tensor_size = int (length chat_history_tensor);
               prompt_tensor_size = int (length a_prompt_tensor);
               start_of_truncated_history = \<bar>a_max_length - prompt_tensor_size\<bar>;
               distance_for_truncated_history = chat_history_tensor_size - start_of_truncated_history
           in if chat_history_tensor_size + prompt_tensor_size > a_max_length - a_extra_budget
              then (case narrow chat_history_tensor start_of_truncated_history
                           distance_for_truncated_history of
                      Inl e \<Rightarrow> Inl (e, [])
                    | Inr truncated_chat_history_tensor \<Rightarrow>
                        (let decoded_truncated_messages = decode a_tokenizer truncated_chat_history_tensor
                         in Inr (original_prompt # split CHR 0x0A decoded_truncated_messages)))
              else Inr [original_prompt]))"

text \<open>
  The loop of \<^verbatim>\<open>memory_cycle_by_sentence\<close>, on the list without its prompt: while the
  history and the prompt are over \<open>a_max_length - a_extra_budget\<close> and an entry is left,
  \<^verbatim>\<open>pop(0)\<close> and measure again. The two warnings it prints change no data.
\<close>

function by_sentence_loop :: "tokenizer \<Rightarrow> int \<Rightarrow> int \<Rightarrow> int \<Rightarrow> string list \<Rightarrow> string list" where
  "by_sentence_loop a_tokenizer a_max_length prompt_tensor_size a_extra_budget a_chat_history =
     (if int (length (encode a_tokenizer (concat a_chat_history))) + prompt_tensor_size
           > a_max_length - a_extra_budget \<and> length a_chat_history > 0
      then by_sentence_loop a_tokenizer a_max_length prompt_tensor_size a_extra_budget
             (tl a_chat_history)
      else a_chat_history)"
  by pat_completeness auto
termination
  by (relation "measure (\<lambda>(_, _, _, _, h). length h)") auto

declare by_sentence_loop.simps [simp del]

definition memory_cycle_by_sentence ::
  "tokenizer \<Rightarrow> int \<Rightarrow> string list \<Rightarrow> int list \<Rightarrow> int \<Rightarrow> error \<times> string list + string list" where
  "memory_cycle_by_sentence a_tokenizer a_max_length a_chat_history a_prompt_tensor a_extra_budget =
     (case a_chat_history of
        [] \<Rightarrow> Inl (IndexError, [])
      | original_prompt # popped \<Rightarrow>
          Inr (original_prompt #
                 by_sentence_loop a_tokenizer a_max_length (int (length a_prompt_tensor))
                   a_extra_budget popped))"

subsection \<open>The methods of the memory handler\<close>

text \<open>
  A method returns \<open>Inr self'\<close>, the handler after the call, or \<open>Inl (e, self')\<close>: the
  exception raised and the handler as the call left it.

  \<^verbatim>\<open>dispatch_memory_cycler\<close> evaluates the arguments of the call before the call. For
  \<open>by_token\<close> the last argument is the attribute \<^verbatim>\<open>self.extra_budge\<close>.
\<close>

definition dispatch_memory_cycler :: "tokenizer \<Rightarrow> memory_handler \<Rightarrow> error \<times> memory_handler + memory_handler" where
  "dispatch_memory_cycler a_tokenizer self =
     (if memory_cycler_type self = ''by_sentence'' then
        (case memory_cycle_by_sentence a_tokenizer (max_length self) (chat_history self)
                (prompt_tensor self) (extra_budget self) of
           Inl (e, h) \<Rightarrow> Inl (e, self\<lparr>chat_history := h\<rparr>)
         | Inr h \<Rightarrow> Inr (self\<lparr>chat_history := h\<rparr>))
      else if memory_cycler_type self = ''by_token'' then
        (case getattr_int self ''extra_budge'' of
           Inl e \<Rightarrow> Inl (e, self)
         | Inr b \<Rightarrow>
             (case memory_cycle_by_token a_tokenizer (max_length self) (chat_history self)
                     (prompt_tensor self) b of
                Inl (e, h) \<Rightarrow> Inl (e, self\<lparr>chat_history := h\<rparr>)
              | Inr h \<Rightarrow> Inr (self\<lparr>chat_history := h\<rparr>)))
      else Inr self)"

definition append_message :: "string \<Rightarrow> tokenizer \<Rightarrow> bool \<Rightarrow> memory_handler \<Rightarrow> error \<times> memory_handler + memory_handler" where
  "append_message a_message a_tokenizer a_cycle_through_memory self =
     (let self' = self\<lparr>chat_history := chat_history self @ [a_message]\<rparr> in
      if a_cycle_through_memory then dispatch_memory_cycler a_tokenizer self' else Inr self')"

definition clear_all_memories :: "memory_handler \<Rightarrow> memory_handler" where
  "clear_all_memories self = self\<lparr>chat_history := [prompt self]\<rparr>"

text \<open>
  \<^verbatim>\<open>pop_memory(a_index)\<close> is \<^verbatim>\<open>self.chat_history.pop(a_index)\<close>: a negative index counts
  from the end, an index outside the list raises IndexError, and nothing else is checked.
\<close>

definition pop_memory :: "int \<Rightarrow> memory_handler \<Rightarrow> error + string \<times> memory_handler" where
  "pop_memory a_index self =
     (let n = int (length (chat_history self));
          i = (if a_index < 0 then a_index + n else a_index)
      in if 0 \<le> i \<and> i < n
         then Inr (chat_history self ! nat i,
                   self\<lparr>chat_history := take (nat i) (chat_history self) @ drop (Suc (nat i)) (chat_history self)\<rparr>)
         else Inl IndexError)"



subsection \<open>Sequences of operations on one transcript\<close>

text \<open>
  The operations that append to, evict from and clear a transcript. An eviction is a call
  of one of the two cyclers on the handler's own chat history and prompt tensor, with the
  maximal length and the extra budget the caller passes.
\<close>

datatype operation =
  Append string bool
  | Evict_By_Token int int
  | Evict_By_Sentence int int
  | Clear

definition store_history :: "memory_handler \<Rightarrow> error \<times> string list + string list \<Rightarrow> error \<times> memory_handler + memory_handler" where
  "store_history self r =
     (case r of
        Inl (e, h) \<Rightarrow> Inl (e, self\<lparr>chat_history := h\<rparr>)
      | Inr h \<Rightarrow> Inr (self\<lparr>chat_history := h\<rparr>))"

fun apply_operation :: "tokenizer \<Rightarrow> operation \<Rightarrow> memory_handler \<Rightarrow> error \<times> memory_handler + memory_handler" where
  "apply_operation tok (Append a_message a_cycle_through_memory) self =
     append_message a_message tok a_cycle_through_memory self"
| "apply_operation tok (Evict_By_Token a_max_length a_extra_budget) self =
     store_history self
       (memory_cycle_by_token tok a_max_length (chat_history self) (prompt_tensor self) a_extra_budget)"
| "apply_operation tok (Evict_By_Sentence a_max_length a_extra_budget) self =
     store_history self
       (memory_cycle_by_sentence tok a_max_length (chat_history self) (prompt_tensor self) a_extra_budget)"
| "apply_operation tok Clear self = Inr (clear_all_memories self)"

text \<open>A sequence of operations stops at the first exception.\<close>

fun run :: "tokenizer \<Rightarrow> operation list \<Rightarrow> memory_handler \<Rightarrow> error \<times> memory_handler + memory_handler" where
  "run tok [] self = Inr self"
| "run tok (operation # operations) self =
     (case apply_operation tok operation self of
        Inl raised \<Rightarrow> Inl raised
      | Inr self' \<Rightarrow> run tok operations self')"

text \<open>The preamble invariant: the chat history is not empty and starts with the prompt.\<close>

definition preamble_first :: "memory_handler \<Rightarrow> bool" where
  "preamble_first self = (case chat_history self of [] \<Rightarrow> False | first # _ \<Rightarrow> first = prompt self)"

text \<open>
  A tokenizer for concrete runs: one token per character, the token being the
  character's code.
\<close>

definition char_tokenizer :: tokenizer where
  "char_tokenizer = \<lparr>encode = map of_char, decode = map char_of\<rparr>"

subsection \<open>The budget test and the specification's reading of the token cycler\<close>

text \<open>
  The test both cyclers make on a list without its prompt: its joined text tokenizes to
  more tokens than \<open>a_max_length - a_extra_budget\<close> leaves beside the prompt.
\<close>

definition over_budget :: "tokenizer \<Rightarrow> int \<Rightarrow> int \<Rightarrow> int \<Rightarrow> string list \<Rightarrow> bool" where
  "over_budget a_tokenizer a_max_length prompt_tensor_size a_extra_budget a_chat_history =
     (int (length (encode a_tokenizer (concat a_chat_history))) + prompt_tensor_size
        > a_max_length - a_extra_budget)"

text \<open>
  The ByToken policy in the words of the specification, for comparison with
  \<open>memory_cycle_by_token\<close>: with \<open>L\<close> the token count of the joined entries after the
  preamble, \<open>keepFrom = max(0, L - (maxTokens - preambleTokenCount))\<close> leading tokens are
  discarded when \<open>L + preambleTokenCount > maxTokens - reserveTokens\<close>, the rest is
  detokenized and split on newlines; otherwise the entries are unchanged; the preamble is
  put back at position 0.
\<close>

definition spec_by_token :: "tokenizer \<Rightarrow> int \<Rightarrow> string \<Rightarrow> string list \<Rightarrow> int \<Rightarrow> int \<Rightarrow> string list" where
  "spec_by_token a_tokenizer maxTokens preamble entries preambleTokenCount reserveTokens =
     (let tokens = encode a_tokenizer (concat entries);
          L = int (length tokens);
          keepFrom = max 0 (L - (maxTokens - preambleTokenCount))
      in if L + preambleTokenCount > maxTokens - reserveTokens
         then preamble # split CHR 0x0A (decode a_tokenizer (drop (nat keepFrom) tokens))
         else preamble # entries)"

section \<open>The transport codec\<close>

text \<open>
  The codec calls Python's \<^verbatim>\<open>json\<close> and \<^verbatim>\<open>base64\<close> modules and the \<^verbatim>\<open>utf-8\<close>
  codec. They are modelled here as far as the codec uses them. A Python \<^verbatim>\<open>str\<close> is a
  \<open>string\<close> whose characters are the code points below 256, and a \<^verbatim>\<open>bytes\<close> value is a
  list of characters read as bytes.
\<close>

subsection \<open>Python values\<close>

text \<open>
  The values a generation result or a parsed JSON document can be: \<^verbatim>\<open>None\<close>, an
  \<^verbatim>\<open>int\<close>, a \<^verbatim>\<open>str\<close>, a \<^verbatim>\<open>list\<close>, or a value of another type (a \<^verbatim>\<open>bool\<close>, a
  \<^verbatim>\<open>float\<close> or a \<^verbatim>\<open>dict\<close>), of which the code only ever asks the type.
\<close>

datatype py_value =
  PyNone | PyInt int | PyStr string | PyList "py_value list" | PyOther

subsection \<open>\<^verbatim>\<open>json.dumps\<close> on a list of integers and on a string\<close>

definition digit_char :: "nat \<Rightarrow> char" where
  "digit_char d = char_of (48 + d)"

function show_nat :: "nat \<Rightarrow> string" where
  "show_nat n = (if n < 10 then [digit_char n] else show_nat (n div 10) @ [digit_char (n mod 10)])"
  by pat_completeness auto
termination
  by (relation "measure id") auto

declare show_nat.simps [simp del]

text \<open>\<^verbatim>\<open>str(i)\<close> for an integer: its decimal digits, after a minus sign when it is negative.\<close>

definition show_int :: "int \<Rightarrow> string" where
  "show_int i = (if i < 0 then CHR ''-'' # show_nat (nat (- i)) else show_nat (nat i))"

text \<open>\<^verbatim>\<open>sep.join(pieces)\<close>.\<close>

fun join :: "string \<Rightarrow> string list \<Rightarrow> string" where
  "join sep [] = []"
| "join sep [piece] = piece"
| "join sep (piece # pieces) = piece @ sep @ join sep pieces"

text \<open>
  \<^verbatim>\<open>json.dumps\<close> with its default separators writes a list of integers as
  \<^verbatim>\<open>[1, 2, 3]\<close>.
\<close>

definition json_dumps_int_list :: "int list \<Rightarrow> string" where
  "json_dumps_int_list a_message = ''['' @ join '', '' (map show_int a_message) @ '']''"

text \<open>
  \<^verbatim>\<open>json.dumps\<close> on a string (with \<^verbatim>\<open>ensure_ascii\<close>, the default): the string between
  double quotes, where the quote, the backslash and every character outside the printable
  ASCII range \<open>0x20 .. 0x7E\<close> are escaped.
\<close>

definition hex_digit :: "nat \<Rightarrow> char" where
  "hex_digit d = (if d < 10 then char_of (48 + d) else char_of (87 + d))"

definition json_escape :: "char \<Rightarrow> string" where
  "json_escape c =
     (if c = CHR 0x22 then [CHR 0x5C, CHR 0x22]
      else if c = CHR 0x5C then [CHR 0x5C, CHR 0x5C]
      else if c = CHR 0x0A then [CHR 0x5C, CHR ''n'']
      else if c = CHR 0x0D then [CHR 0x5C, CHR ''r'']
      else if c = CHR 0x09 then [CHR 0x5C, CHR ''t'']
      else if c = CHR 0x0C then [CHR 0x5C, CHR ''f'']
      else if c = CHR 0x08 then [CHR 0x5C, CHR ''b'']
      else if (of_char c :: nat) < 32 \<or> (of_char c :: nat) > 126
      then [CHR 0x5C, CHR ''u'', CHR ''0'', CHR ''0'',
            hex_digit (of_char c div 16), hex_digit (of_char c mod 16)]
      else [c])"

definition json_dumps_str :: "string \<Rightarrow> string" where
  "json_dumps_str s = [CHR 0x22] @ concat (map json_escape s) @ [CHR 0x22]"

subsection \<open>\<^verbatim>\<open>json.loads\<close> on documents made of integers and arrays\<close>

text \<open>
  The model of \<^verbatim>\<open>json.loads\<close> covers the documents written with the characters
  \<^verbatim>\<open>[ ] , - 0..9\<close> and JSON whitespace: integers and arrays, nested at will. A document
  with any other character (a string, a literal, a float, an object) is outside the model
  and gives \<open>NotModelled\<close>. Inside the fragment a malformed document gives
  \<open>JSONDecodeError\<close>, as Python does.
\<close>

datatype json_token = LBracket | RBracket | Comma | Number int

definition is_digit :: "char \<Rightarrow> bool" where
  "is_digit c = (48 \<le> (of_char c :: nat) \<and> (of_char c :: nat) \<le> 57)"

definition is_json_whitespace :: "char \<Rightarrow> bool" where
  "is_json_whitespace c = (c = CHR 0x20 \<or> c = CHR 0x09 \<or> c = CHR 0x0A \<or> c = CHR 0x0D)"

definition in_fragment :: "char \<Rightarrow> bool" where
  "in_fragment c =
     (is_digit c \<or> is_json_whitespace c \<or> c = CHR ''['' \<or> c = CHR '']'' \<or> c = CHR '','' \<or> c = CHR ''-'')"

definition read_nat :: "string \<Rightarrow> nat" where
  "read_nat ds = foldl (\<lambda>a c. 10 * a + (of_char c - 48)) 0 ds"

definition cons_token :: "json_token \<Rightarrow> error + json_token list \<Rightarrow> error + json_token list" where
  "cons_token t r = (case r of Inl e \<Rightarrow> Inl e | Inr ts \<Rightarrow> Inr (t # ts))"

text \<open>
  The scanner. A number is an optional minus sign and then either a single \<open>0\<close> or a
  digit from 1 to 9 with all the digits that follow (Python's \<^verbatim>\<open>-?(0|[1-9]\d*)\<close>).
\<close>

function json_lex :: "string \<Rightarrow> error + json_token list" where
  "json_lex [] = Inr []"
| "json_lex (c # cs) =
     (if is_json_whitespace c then json_lex cs
      else if c = CHR ''['' then cons_token LBracket (json_lex cs)
      else if c = CHR '']'' then cons_token RBracket (json_lex cs)
      else if c = CHR '','' then cons_token Comma (json_lex cs)
      else if c = CHR ''-'' then
        (case cs of
           [] \<Rightarrow> Inl JSONDecodeError
         | d # ds \<Rightarrow>
             if d = CHR ''0'' then cons_token (Number 0) (json_lex ds)
             else if is_digit d then
               cons_token (Number (- int (read_nat (d # takeWhile is_digit ds))))
                 (json_lex (dropWhile is_digit ds))
             else Inl JSONDecodeError)
      else if c = CHR ''0'' then cons_token (Number 0) (json_lex cs)
      else if is_digit c then
        cons_token (Number (int (read_nat (c # takeWhile is_digit cs))))
          (json_lex (dropWhile is_digit cs))
      else Inl JSONDecodeError)"
  by pat_completeness auto
termination
  by (relation "measure length") (auto simp: le_imp_less_Suc length_dropWhile_le less_Suc_eq_le intro: le_SucI)

declare json_lex.simps [simp del]

text \<open>
  The parser, over the tokens: a stack of the arrays that are open, each with its elements
  so far in reverse, and what may come next.
\<close>

datatype expect = Expect_Value | Expect_Value_Or_Close | Expect_Comma_Or_Close | Finished py_value

definition deliver :: "py_value \<Rightarrow> py_value list list \<Rightarrow> py_value list list \<times> expect" where
  "deliver v stack =
     (case stack of
        [] \<Rightarrow> ([], Finished v)
      | elems # below \<Rightarrow> ((v # elems) # below, Expect_Comma_Or_Close))"

definition close_array :: "py_value list list \<Rightarrow> (py_value list list \<times> expect) option" where
  "close_array stack =
     (case stack of
        [] \<Rightarrow> None
      | elems # below \<Rightarrow> Some (deliver (PyList (rev elems)) below))"

fun parse_tokens :: "py_value list list \<Rightarrow> expect \<Rightarrow> json_token list \<Rightarrow> error + py_value" where
  "parse_tokens stack (Finished v) [] = Inr v"
| "parse_tokens stack st [] = Inl JSONDecodeError"
| "parse_tokens stack (Finished v) (t # ts) = Inl JSONDecodeError"
| "parse_tokens stack Expect_Value (Number i # ts) =
     (case deliver (PyInt i) stack of (stack', st') \<Rightarrow> parse_tokens stack' st' ts)"
| "parse_tokens stack Expect_Value (LBracket # ts) = parse_tokens ([] # stack) Expect_Value_Or_Close ts"
| "parse_tokens stack Expect_Value (t # ts) = Inl JSONDecodeError"
| "parse_tokens stack Expect_Value_Or_Close (Number i # ts) =
     (case deliver (PyInt i) stack of (stack', st') \<Rightarrow> parse_tokens stack' st' ts)"
| "parse_tokens stack Expect_Value_Or_Close (LBracket # ts) =
     parse_tokens ([] # stack) Expect_Value_Or_Close ts"
| "parse_tokens stack Expect_Value_Or_Close (RBracket # ts) =
     (case close_array stack of
        None \<Rightarrow> Inl JSONDecodeError
      | Some (stack', st') \<Rightarrow> parse_tokens stack' st' ts)"
| "parse_tokens stack Expect_Value_Or_Close (Comma # ts) = Inl JSONDecodeError"
| "parse_tokens stack Expect_Comma_Or_Close (Comma # ts) = parse_tokens stack Expect_Value ts"
| "parse_tokens stack Expect_Comma_Or_Close (RBracket # ts) =
     (case close_array stack of
        None \<Rightarrow> Inl JSONDecodeError
      | Some (stack', st') \<Rightarrow> parse_tokens stack' st' ts)"
| "parse_tokens stack Expect_Comma_Or_Close (t # ts) = Inl JSONDecodeError"

definition json_loads :: "string \<Rightarrow> error + py_value" where
  "json_loads s =
     (if \<not> list_all in_fragment s then Inl NotModelled
      else (case json_lex s of
              Inl e \<Rightarrow> Inl e
            | Inr ts \<Rightarrow> parse_tokens [] Expect_Value ts))"

subsection \<open>The \<^verbatim>\<open>utf-8\<close> codec\<close>

text \<open>
  \<^verbatim>\<open>bytes(s, encoding='utf-8')\<close>: a code point below 128 is one byte, one from 128 to 255
  is two bytes.
\<close>

definition utf8_encode :: "string \<Rightarrow> char list" where
  "utf8_encode s =
     concat (map (\<lambda>c. if (of_char c :: nat) < 128 then [c]
                       else [char_of (192 + (of_char c :: nat) div 64),
                             char_of (128 + (of_char c :: nat) mod 64)]) s)"

definition cons_char :: "char \<Rightarrow> error + string \<Rightarrow> error + string" where
  "cons_char c r = (case r of Inl e \<Rightarrow> Inl e | Inr s \<Rightarrow> Inr (c # s))"

text \<open>
  \<^verbatim>\<open>b.decode("utf-8")\<close>. A lead byte from \<open>0xC4\<close> to \<open>0xF4\<close> starts a code point from 256
  on, which a \<open>string\<close> cannot hold: such input is not modelled.
\<close>

fun utf8_decode :: "char list \<Rightarrow> error + string" where
  "utf8_decode [] = Inr []"
| "utf8_decode [b] =
     (if (of_char b :: nat) < 128 then Inr [b]
      else if 196 \<le> (of_char b :: nat) \<and> (of_char b :: nat) \<le> 244 then Inl NotModelled
      else Inl UnicodeDecodeError)"
| "utf8_decode (b # b2 # bs) =
     (if (of_char b :: nat) < 128 then cons_char b (utf8_decode (b2 # bs))
      else if (of_char b :: nat) = 194 \<or> (of_char b :: nat) = 195 then
        (if 128 \<le> (of_char b2 :: nat) \<and> (of_char b2 :: nat) < 192
         then cons_char (char_of (((of_char b :: nat) - 192) * 64 + ((of_char b2 :: nat) - 128)))
                (utf8_decode bs)
         else Inl UnicodeDecodeError)
      else if 196 \<le> (of_char b :: nat) \<and> (of_char b :: nat) \<le> 244 then Inl NotModelled
      else Inl UnicodeDecodeError)"

subsection \<open>\<^verbatim>\<open>base64\<close>\<close>

definition b64_alphabet :: string where
  "b64_alphabet = ''ABCDEFGHIJKLMNOPQRSTUVWXYZabcdefghijklmnopqrstuvwxyz0123456789+/''"

definition b64_char :: "nat \<Rightarrow> char" where
  "b64_char v = b64_alphabet ! v"

text \<open>
  \<^verbatim>\<open>base64.b64encode\<close>: three bytes give four characters of six bits each; one or two
  bytes left over give two or three characters and \<open>=\<close> up to four. A shift to the left
  by \<open>k\<close> bits is written as a multiplication by \<open>2 ^ k\<close>, a shift to the right as a
  division, a mask as a remainder, and the union of two bit fields that do not overlap as
  their sum.
\<close>

fun b64encode :: "char list \<Rightarrow> string" where
  "b64encode [] = []"
| "b64encode [a] =
     [b64_char ((of_char a :: nat) div 4), b64_char (((of_char a :: nat) mod 4) * 16),
      CHR ''='', CHR ''='']"
| "b64encode [a, b] =
     [b64_char ((of_char a :: nat) div 4),
      b64_char (((of_char a :: nat) mod 4) * 16 + (of_char b :: nat) div 16),
      b64_char (((of_char b :: nat) mod 16) * 4), CHR ''='']"
| "b64encode (a # b # c # bs) =
     [b64_char ((of_char a :: nat) div 4),
      b64_char (((of_char a :: nat) mod 4) * 16 + (of_char b :: nat) div 16),
      b64_char (((of_char b :: nat) mod 16) * 4 + (of_char c :: nat) div 64),
      b64_char ((of_char c :: nat) mod 64)] @ b64encode bs"

fun index_of :: "'a \<Rightarrow> 'a list \<Rightarrow> nat option" where
  "index_of x [] = None"
| "index_of x (y # ys) = (if x = y then Some 0 else map_option Suc (index_of x ys))"

definition table_a2b_base64 :: "char \<Rightarrow> nat option" where
  "table_a2b_base64 this_ch = index_of this_ch b64_alphabet"

text \<open>
  \<^verbatim>\<open>binascii.a2b_base64\<close> as \<^verbatim>\<open>base64.b64decode\<close> calls it (\<^verbatim>\<open>validate=False\<close>): a
  character outside the alphabet is skipped; a \<open>=\<close> that completes a group of four ends
  the decoding, any other \<open>=\<close> is skipped; the input must end on a complete group.
  \<open>quad_pos\<close> is the position in the group of four, \<open>leftchar\<close> the bits not yet
  written, \<open>pads\<close> the \<open>=\<close> seen in a row, \<open>bin_data\<close> the bytes written.
\<close>

fun a2b_base64_loop :: "nat \<Rightarrow> nat \<Rightarrow> nat \<Rightarrow> char list \<Rightarrow> string \<Rightarrow> error + char list" where
  "a2b_base64_loop quad_pos leftchar pads bin_data [] =
     (if quad_pos \<noteq> 0 then Inl Base64Error else Inr bin_data)"
| "a2b_base64_loop quad_pos leftchar pads bin_data (this_ch # ascii_data) =
     (if this_ch = CHR ''='' then
        (if quad_pos \<ge> 2 \<and> quad_pos + (pads + 1) \<ge> 4 then Inr bin_data
         else a2b_base64_loop quad_pos leftchar (if quad_pos \<ge> 2 then pads + 1 else pads)
                bin_data ascii_data)
      else
        (case table_a2b_base64 this_ch of
           None \<Rightarrow> a2b_base64_loop quad_pos leftchar pads bin_data ascii_data
         | Some v \<Rightarrow>
             (if quad_pos = 0 then a2b_base64_loop 1 v 0 bin_data ascii_data
              else if quad_pos = 1 then
                a2b_base64_loop 2 (v mod 16) 0
                  (bin_data @ [char_of (leftchar * 4 + v div 16)]) ascii_data
              else if quad_pos = 2 then
                a2b_base64_loop 3 (v mod 4) 0
                  (bin_data @ [char_of (leftchar * 16 + v div 4)]) ascii_data
              else
                a2b_base64_loop 0 0 0
                  (bin_data @ [char_of (leftchar * 64 + v)]) ascii_data)))"

text \<open>
  \<^verbatim>\<open>base64.b64decode(s)\<close> on a \<^verbatim>\<open>str\<close>: the string is encoded as ASCII first, which
  raises ValueError on a character from 128 on.
\<close>

definition b64decode :: "string \<Rightarrow> error + char list" where
  "b64decode s =
     (if \<not> list_all (\<lambda>c. (of_char c :: nat) < 128) s then Inl ValueError
      else a2b_base64_loop 0 0 0 [] s)"

subsection \<open>The two codec functions of \<^verbatim>\<open>front_end_utils\<close>\<close>

definition decode_encoded_tokenized_tensor :: "string \<Rightarrow> error + py_value" where
  "decode_encoded_tokenized_tensor a_encoded_tokens =
     (case b64decode a_encoded_tokens of
        Inl e \<Rightarrow> Inl e
      | Inr partial_decoded_history \<Rightarrow>
          (case utf8_decode partial_decoded_history of
             Inl e \<Rightarrow> Inl e
           | Inr text \<Rightarrow> json_loads text))"

definition get_encoded_str_from_token_list :: "int list \<Rightarrow> error + string" where
  "get_encoded_str_from_token_list a_message =
     (case utf8_decode (b64encode (utf8_encode (json_dumps_int_list a_message))) of
        Inl e \<Rightarrow> Inl e
      | Inr encoded \<Rightarrow> Inr (json_dumps_str encoded))"

definition get_encoded_chat_history :: "tokenizer \<Rightarrow> memory_handler \<Rightarrow> error + string" where
  "get_encoded_chat_history a_tokenizer self =
     (let string_chat_history = concat (chat_history self);
          tokenized_chat_history = encode a_tokenizer string_chat_history
      in get_encoded_str_from_token_list tokenized_chat_history)"

section \<open>The generation request and the providers\<close>

subsection \<open>\<^verbatim>\<open>Provider.request_generation\<close>\<close>

text \<open>
  The \<^verbatim>\<open>requests\<close> library is an external collaborator. What the code can tell apart of
  an exception is the except clause that catches it, in the order of the source:
  \<^verbatim>\<open>HTTPError\<close>, \<^verbatim>\<open>Timeout\<close>, any other \<^verbatim>\<open>RequestException\<close>, any other
  \<^verbatim>\<open>Exception\<close>; and the attributes the exception object has.
\<close>

datatype exception_class = HTTPError | Timeout | RequestException | OtherException

record py_exception =
  exc_class :: exception_class
  attributes :: "(string \<times> py_value) list"

text \<open>Attribute access \<^verbatim>\<open>exc.name\<close>: AttributeError when the object has no such attribute.\<close>

definition getattr :: "py_exception \<Rightarrow> string \<Rightarrow> error + py_value" where
  "getattr exc name =
     (case map_of (attributes exc) name of
        None \<Rightarrow> Inl AttributeError
      | Some v \<Rightarrow> Inr v)"

text \<open>
  A response: its status code and what \<^verbatim>\<open>bot_response.json()\<close> does, which is to raise
  on a body that is not JSON and to return the parsed body otherwise.
\<close>

record response =
  status_code :: nat
  json :: "py_exception + py_value"

text \<open>
  \<^verbatim>\<open>Response.raise_for_status()\<close> raises for a status from 400 to 599. The exception is a
  \<^verbatim>\<open>requests.exceptions.HTTPError\<close> made with the response: \<^verbatim>\<open>RequestException.__init__\<close>
  gives it the attributes \<^verbatim>\<open>response\<close> and \<^verbatim>\<open>request\<close>, and \<^verbatim>\<open>OSError\<close>, its base
  class, the attributes \<^verbatim>\<open>args\<close>, \<^verbatim>\<open>errno\<close>, \<^verbatim>\<open>strerror\<close>, \<^verbatim>\<open>filename\<close> and
  \<^verbatim>\<open>filename2\<close>. The status is \<^verbatim>\<open>exc.response.status_code\<close>; the objects held by
  \<^verbatim>\<open>response\<close>, \<^verbatim>\<open>request\<close> and \<^verbatim>\<open>args\<close> are values of another type here.
\<close>

definition raise_for_status :: "response \<Rightarrow> py_exception option" where
  "raise_for_status r =
     (if 400 \<le> status_code r \<and> status_code r < 600
      then Some \<lparr>exc_class = HTTPError,
                 attributes = [(''response'', PyOther), (''request'', PyOther), (''args'', PyOther),
                               (''errno'', PyNone), (''strerror'', PyNone),
                               (''filename'', PyNone), (''filename2'', PyNone)]\<rparr>
      else None)"

text \<open>
  \<^verbatim>\<open>request_generation\<close>, given what \<^verbatim>\<open>requests.post\<close> does (raise, or return a
  response). The body of the \<^verbatim>\<open>try\<close> parses the JSON body, then checks the status, then
  returns the parsed body. The handler of \<^verbatim>\<open>HTTPError\<close> reads \<^verbatim>\<open>http_exception.code\<close>
  first of all, and an exception raised inside a handler leaves the function. The logging
  calls are left out.
\<close>

definition request_generation :: "py_exception + response \<Rightarrow> error + py_value" where
  "request_generation post =
     (let attempt =
            (case post of
               Inl exc \<Rightarrow> Inl exc
             | Inr bot_response \<Rightarrow>
                 (case json bot_response of
                    Inl exc \<Rightarrow> Inl exc
                  | Inr json_bot_response \<Rightarrow>
                      (case raise_for_status bot_response of
                         Some exc \<Rightarrow> Inl exc
                       | None \<Rightarrow> Inr json_bot_response)))
      in case attempt of
           Inr json_bot_response \<Rightarrow> Inr json_bot_response
         | Inl exc \<Rightarrow>
             (case exc_class exc of
                HTTPError \<Rightarrow>
                  (case getattr exc ''code'' of
                     Inl e \<Rightarrow> Inl e
                   | Inr code \<Rightarrow> Inr code)
              | Timeout \<Rightarrow> Inr (PyInt 0)
              | RequestException \<Rightarrow> Inr (PyInt (- 1))
              | OtherException \<Rightarrow> Inr (PyInt (- 2))))"

subsection \<open>The provider's state\<close>

record provider =
  user_name :: string
  bot_name :: string
  memories :: memory_handler
  tokenizer :: tokenizer

record message =
  author_name :: string
  content :: string

record interaction =
  interaction_user_name :: string

text \<open>
  The backend, as the providers see it: from the encoded chat history they send to what
  \<^verbatim>\<open>requests.post\<close> does.
\<close>

type_synonym backend = "string \<Rightarrow> py_exception + response"

text \<open>
  \<^verbatim>\<open>Provider.detokenize_decoded_message\<close>: \<^verbatim>\<open>self.tokenizer.decode\<close> on the element at
  index 0, which the tokenizer takes as a list of token ids or as one token id.
\<close>

fun ints_of :: "py_value list \<Rightarrow> int list option" where
  "ints_of [] = Some []"
| "ints_of (PyInt i # vs) = map_option ((#) i) (ints_of vs)"
| "ints_of (v # vs) = None"

definition detokenize_decoded_message :: "tokenizer \<Rightarrow> py_value \<Rightarrow> error + string" where
  "detokenize_decoded_message a_tokenizer a_list_of_decoded_tokens =
     (case a_list_of_decoded_tokens of
        PyList [] \<Rightarrow> Inl IndexError
      | PyList (PyList ids # _) \<Rightarrow>
          (case ints_of ids of
             None \<Rightarrow> Inl TypeError
           | Some token_ids \<Rightarrow> Inr (decode a_tokenizer token_ids))
      | PyList (PyInt i # _) \<Rightarrow> Inr (decode a_tokenizer [i])
      | PyList (_ # _) \<Rightarrow> Inl TypeError
      | PyStr [] \<Rightarrow> Inl IndexError
      | PyOther \<Rightarrow> Inl NotModelled
      | _ \<Rightarrow> Inl TypeError)"

text \<open>
  Python's \<^verbatim>\<open>str.strip()\<close>: the whitespace code points below 256 are \<open>0x09 .. 0x0D\<close>,
  \<open>0x1C .. 0x20\<close>, \<open>0x85\<close> and \<open>0xA0\<close>.
\<close>

definition isspace :: "char \<Rightarrow> bool" where
  "isspace c =
     (let n = (of_char c :: nat)
      in (9 \<le> n \<and> n \<le> 13) \<or> (28 \<le> n \<and> n \<le> 32) \<or> n = 133 \<or> n = 160)"

definition strip :: "string \<Rightarrow> string" where
  "strip s = rev (dropWhile isspace (rev (dropWhile isspace s)))"

subsection \<open>\<^verbatim>\<open>Discord_Provider.validate_generation\<close>\<close>

text \<open>
  The two optional arguments are the interaction and the message to answer to; every
  caller passes one of them. An error message goes to the interaction when there is one,
  else to the message, and answering to a message that is \<^verbatim>\<open>None\<close> raises AttributeError.
  What is sent to the user is not part of the state and is left out.

  A generation that is an \<^verbatim>\<open>int\<close> is an error code. Otherwise the generation is
  \<^verbatim>\<open>None\<close> or \<^verbatim>\<open>strip\<close> is called on it, which only a \<^verbatim>\<open>str\<close> has. When nothing was
  generated the memories are cleared on the message branch only.
\<close>

definition nothing_generated ::
  "interaction option \<Rightarrow> message option \<Rightarrow> provider \<Rightarrow> error \<times> provider + bool \<times> provider" where
  "nothing_generated a_interaction a_message self =
     (if a_interaction \<noteq> None then Inr (False, self)
      else if a_message = None then Inl (AttributeError, self)
      else Inr (False, self\<lparr>memories := clear_all_memories (memories self)\<rparr>))"

definition validate_generation ::
  "py_value \<Rightarrow> interaction option \<Rightarrow> message option \<Rightarrow> provider \<Rightarrow> error \<times> provider + bool \<times> provider" where
  "validate_generation a_generation a_interaction a_message self =
     (case a_generation of
        PyInt code \<Rightarrow>
          (if a_interaction \<noteq> None then Inr (False, self)
           else if a_message = None then Inl (AttributeError, self)
           else Inr (False, self))
      | PyNone \<Rightarrow> nothing_generated a_interaction a_message self
      | PyStr s \<Rightarrow>
          (if strip s = [] then nothing_generated a_interaction a_message self
           else Inr (True, self))
      | PyList _ \<Rightarrow> Inl (AttributeError, self)
      | PyOther \<Rightarrow> Inl (AttributeError, self))"

subsection \<open>\<^verbatim>\<open>Discord_Provider.send_discord_message\<close> and the \<^verbatim>\<open>autocomplete\<close> command\<close>

text \<open>
  A method of a provider returns \<open>Inr self'\<close>, the provider after the call, or
  \<open>Inl (e, self')\<close>: the exception raised and the provider as the call left it.
\<close>

definition with_memories :: "provider \<Rightarrow> error \<times> memory_handler + memory_handler \<Rightarrow> error \<times> provider + provider" where
  "with_memories self r =
     (case r of
        Inl (e, m) \<Rightarrow> Inl (e, self\<lparr>memories := m\<rparr>)
      | Inr m \<Rightarrow> Inr (self\<lparr>memories := m\<rparr>))"

text \<open>
  What both commands do with a generation that was validated: decode it and detokenize
  it. \<^verbatim>\<open>base64.b64decode\<close> raises TypeError on a value that is neither a \<^verbatim>\<open>str\<close> nor
  bytes.
\<close>

definition decode_bot_response :: "tokenizer \<Rightarrow> py_value \<Rightarrow> error + string" where
  "decode_bot_response a_tokenizer bot_response =
     (case bot_response of
        PyStr a_encoded_tokens \<Rightarrow>
          (case decode_encoded_tokenized_tensor a_encoded_tokens of
             Inl e \<Rightarrow> Inl e
           | Inr decoded_bot_message \<Rightarrow> detokenize_decoded_message a_tokenizer decoded_bot_message)
      | _ \<Rightarrow> Inl TypeError)"

definition send_discord_message :: "backend \<Rightarrow> message \<Rightarrow> provider \<Rightarrow> error \<times> provider + provider" where
  "send_discord_message a_backend a_message self =
     (let user_message = author_name a_message @ '': '' @ content a_message @ [CHR 0x0A] in
      case append_message user_message (tokenizer self) True (memories self) of
        Inl (e, m) \<Rightarrow> Inl (e, self\<lparr>memories := m\<rparr>)
      | Inr m1 \<Rightarrow>
      (case append_message (bot_name self @ '':'') (tokenizer self) True m1 of
        Inl (e, m) \<Rightarrow> Inl (e, self\<lparr>memories := m\<rparr>)
      | Inr m2 \<Rightarrow>
      (let requested = self\<lparr>memories := m2\<rparr> in
       case get_encoded_chat_history (tokenizer self) m2 of
         Inl e \<Rightarrow> Inl (e, requested)
       | Inr chat_history_encoded \<Rightarrow>
       (case request_generation (a_backend chat_history_encoded) of
          Inl e \<Rightarrow> Inl (e, requested)
        | Inr bot_response \<Rightarrow>
        (case validate_generation bot_response None (Some a_message) requested of
           Inl raised \<Rightarrow> Inl raised
         | Inr (valid, validated) \<Rightarrow>
             if \<not> valid then Inr validated
             else
               (case decode_bot_response (tokenizer self) bot_response of
                  Inl e \<Rightarrow> Inl (e, validated)
                | Inr detokenized_bot_message \<Rightarrow>
                    (case pop_memory (- 1) (memories validated) of
                       Inl e \<Rightarrow> Inl (e, validated)
                     | Inr (popped, m3) \<Rightarrow>
                         with_memories validated
                           (append_message (bot_name self @ '': '' @ detokenized_bot_message)
                              (tokenizer self) True m3))))))))"


subsection \<open>One turn of \<^verbatim>\<open>Terminal_Provider.chat\<close>\<close>

text \<open>
  One pass of the loop of \<^verbatim>\<open>chat\<close> on an input other than \<^verbatim>\<open>!quit\<close>. The statement
  \<^verbatim>\<open>serial_settings = json.dumps(serial_settings)\<close> makes \<^verbatim>\<open>serial_settings\<close> a local
  variable of \<^verbatim>\<open>chat\<close> and reads it before anything was assigned to it, which raises
  UnboundLocalError: the first pass ends there, before the request.
\<close>

definition chat_turn :: "string \<Rightarrow> provider \<Rightarrow> error \<times> provider + provider" where
  "chat_turn user_input self =
     (if user_input \<noteq> ''!quit'' then
        (let formatted_user_input = user_name self @ '': '' @ user_input @ [CHR 0x0A] in
         case append_message formatted_user_input (tokenizer self) True (memories self) of
           Inl (e, m) \<Rightarrow> Inl (e, self\<lparr>memories := m\<rparr>)
         | Inr m \<Rightarrow>
             (case get_encoded_chat_history (tokenizer self) m of
                Inl e \<Rightarrow> Inl (e, self\<lparr>memories := m\<rparr>)
              | Inr chat_history_encoded \<Rightarrow> Inl (UnboundLocalError, self\<lparr>memories := m\<rparr>)))
      else Inr self)"

text \<open>The provider a call leaves behind, whether it returned or raised.\<close>

definition provider_after :: "error \<times> provider + provider \<Rightarrow> provider" where
  "provider_after r = (case r of Inl (e, self) \<Rightarrow> self | Inr self \<Rightarrow> self)"

text \<open>
  The tokens of the document that \<open>json_dumps_int_list\<close> writes, between its brackets.
\<close>

fun int_tokens :: "int list \<Rightarrow> json_token list" where
  "int_tokens [] = []"
| "int_tokens [x] = [Number x]"
| "int_tokens (x # xs) = Number x # Comma # int_tokens xs"

text \<open>
  A generation request has failed when \<open>request_generation\<close> raised or returned an
  \<^verbatim>\<open>int\<close>, which is how it reports a timeout, a request error, any other error and an
  HTTP status.
\<close>

definition generation_failed :: "error + py_value \<Rightarrow> bool" where
  "generation_failed r = (case r of Inl e \<Rightarrow> True | Inr (PyInt code) \<Rightarrow> True | Inr _ \<Rightarrow> False)"

text \<open>A provider and a message for concrete runs.\<close>

definition example_provider :: "string \<Rightarrow> provider" where
  "example_provider a_memory_cycler =
     \<lparr>user_name = ''alice'', bot_name = ''Bot'',
      memories = Memory_Handler char_tokenizer a_memory_cycler 0 ''cpu'' 100 ''P:'',
      tokenizer = char_tokenizer\<rparr>"

definition example_message :: message where
  "example_message = \<lparr>author_name = ''alice'', content = ''hi''\<rparr>"

chapter \<open>Properties\<close>

section \<open>The preamble stays at position 0\<close>

lemma by_token_keeps_prompt:
  "memory_cycle_by_token tok ml (p # rest) pt eb = Inr h \<Longrightarrow> \<exists>t. h = p # t"
  by (auto simp: memory_cycle_by_token_def Let_def split: if_splits sum.splits)

lemma by_sentence_keeps_prompt:
  "memory_cycle_by_sentence tok ml (p # rest) pt eb = Inr h \<Longrightarrow> \<exists>t. h = p # t"
  by (auto simp: memory_cycle_by_sentence_def)

lemma preamble_first_iff:
  "preamble_first self \<longleftrightarrow> (\<exists>t. chat_history self = prompt self # t)"
  by (auto simp: preamble_first_def split: list.splits)

lemma dispatch_preamble_first:
  assumes "preamble_first self" and "dispatch_memory_cycler tok self = Inr self'"
  shows "preamble_first self' \<and> prompt self' = prompt self"
proof -
  from assms(1) obtain t where h: "chat_history self = prompt self # t"
    by (auto simp: preamble_first_iff)
  show ?thesis
  proof (cases "memory_cycler_type self = ''by_sentence''")
    case True
    with assms(2) h show ?thesis
      by (auto simp: dispatch_memory_cycler_def memory_cycle_by_sentence_def preamble_first_iff)
  next
    case False
    with assms(2) h show ?thesis
      by (auto simp: dispatch_memory_cycler_def getattr_int_def preamble_first_iff split: if_splits)
  qed
qed

lemma append_preamble_first:
  assumes "preamble_first self" and "append_message m tok c self = Inr self'"
  shows "preamble_first self' \<and> prompt self' = prompt self"
proof -
  let ?s = "self\<lparr>chat_history := chat_history self @ [m]\<rparr>"
  from assms(1) have p: "preamble_first ?s" and q: "prompt ?s = prompt self"
    by (auto simp: preamble_first_iff)
  show ?thesis
  proof (cases c)
    case True
    with assms(2) have "dispatch_memory_cycler tok ?s = Inr self'"
      by (simp add: append_message_def)
    from dispatch_preamble_first[OF p this] q show ?thesis by simp
  next
    case False
    with assms(2) p q show ?thesis by (auto simp: append_message_def)
  qed
qed

lemma store_history_preamble_first:
  assumes "chat_history self = prompt self # t" and "store_history self r = Inr self'"
    and "\<And>h. r = Inr h \<Longrightarrow> \<exists>t'. h = prompt self # t'"
  shows "preamble_first self' \<and> prompt self' = prompt self"
  using assms by (cases r) (auto simp: store_history_def preamble_first_iff)

lemma apply_operation_preamble_first:
  assumes "preamble_first self" and "apply_operation tok operation self = Inr self'"
  shows "preamble_first self' \<and> prompt self' = prompt self"
proof -
  from assms(1) obtain t where h: "chat_history self = prompt self # t"
    by (auto simp: preamble_first_iff)
  show ?thesis
  proof (cases operation)
    case (Append m c)
    with assms show ?thesis by (simp add: append_preamble_first)
  next
    case (Evict_By_Token ml eb)
    with assms(2) h show ?thesis
      by (auto intro!: store_history_preamble_first[OF h] dest: by_token_keeps_prompt)
  next
    case (Evict_By_Sentence ml eb)
    with assms(2) h show ?thesis
      by (auto intro!: store_history_preamble_first[OF h] dest: by_sentence_keeps_prompt)
  next
    case Clear
    with assms(2) show ?thesis
      by (auto simp: clear_all_memories_def preamble_first_iff)
  qed
qed

lemma run_preamble_first:
  "preamble_first self \<Longrightarrow> run tok operations self = Inr self'
     \<Longrightarrow> preamble_first self' \<and> prompt self' = prompt self"
proof (induction operations arbitrary: self)
  case Nil
  then show ?case by simp
next
  case (Cons operation operations)
  from Cons.prems(2) obtain mid where
    m: "apply_operation tok operation self = Inr mid" and r: "run tok operations mid = Inr self'"
    by (auto split: sum.splits)
  from apply_operation_preamble_first[OF Cons.prems(1) m]
  have "preamble_first mid" and "prompt mid = prompt self" by simp_all
  with Cons.IH[OF _ r] show ?case by simp
qed

text \<open>
  As long as no call raises, a sequence of \<open>append_message\<close>, \<open>memory_cycle_by_token\<close>,
  \<open>memory_cycle_by_sentence\<close> and \<open>clear_all_memories\<close> calls on a handler constructed
  from a prompt leaves a chat history whose entry at position 0 is that prompt.
\<close>

lemma preamble_first_when_run_returns:
  assumes "run tok operations
             (Memory_Handler tok0 a_memory_cycler a_extra_budget a_device a_max_length a_prompt)
           = Inr self"
  shows "chat_history self \<noteq> [] \<and> chat_history self ! 0 = a_prompt"
proof -
  let ?init = "Memory_Handler tok0 a_memory_cycler a_extra_budget a_device a_max_length a_prompt"
  have "preamble_first ?init" and "prompt ?init = a_prompt"
    by (simp_all add: Memory_Handler_def preamble_first_def)
  with run_preamble_first[OF _ assms] have "preamble_first self" and "prompt self = a_prompt"
    by simp_all
  then show ?thesis by (auto simp: preamble_first_iff)
qed

lemma preamble_first_example:
  "run char_tokenizer
     [Append ''U: hello\<newline>'' True, Append ''B: hi\<newline>'' True, Evict_By_Token 4 0, Clear,
      Append ''U: bye\<newline>'' False, Append ''B: ok\<newline>'' False, Evict_By_Sentence 14 0]
     (Memory_Handler char_tokenizer ''by_sentence'' 0 ''cpu'' 12 ''P:'')
   = Inr \<lparr>memory_cycler_type = ''by_sentence'', extra_budget = 0, device = ''cpu'',
           max_length = 12, prompt = ''P:'', prompt_tensor = [80, 58],
           chat_history = [''P:'', ''B: ok\<newline>'']\<rparr>
   \<and> [''P:'', ''B: ok\<newline>''] ! 0 = ''P:''"
proof -
  have r: "run char_tokenizer
     [Append ''U: hello\<newline>'' True, Append ''B: hi\<newline>'' True, Evict_By_Token 4 0, Clear,
      Append ''U: bye\<newline>'' False, Append ''B: ok\<newline>'' False, Evict_By_Sentence 14 0]
     (Memory_Handler char_tokenizer ''by_sentence'' 0 ''cpu'' 12 ''P:'')
   = Inr \<lparr>memory_cycler_type = ''by_sentence'', extra_budget = 0, device = ''cpu'',
           max_length = 12, prompt = ''P:'', prompt_tensor = [80, 58],
           chat_history = [''P:'', ''B: ok\<newline>'']\<rparr>"
    by code_simp
  from preamble_first_when_run_returns[OF r] r show ?thesis by simp
qed

text \<open>
  A call that raises leaves a state behind too. \<open>memory_cycle_by_token\<close> pops the prompt
  and clears the list before it calls \<open>narrow\<close>, and puts the prompt back only after: when
  it raises on a history that is not empty, which is when the cut point
  \<open>\<bar>a_max_length - prompt_tensor_size\<bar>\<close> lies after the last token of a history that is
  over budget, the list it leaves is empty.
\<close>

lemma by_token_raise_leaves_empty:
  "memory_cycle_by_token tok ml h pt eb = Inl (e, h') \<Longrightarrow> h' = []"
  by (auto simp: memory_cycle_by_token_def Let_def split: list.splits if_splits sum.splits)

lemma by_token_raises_when_cut_is_beyond:
  assumes "int (length (encode tok (concat rest))) + int (length pt) > ml - eb"
    and "int (length (encode tok (concat rest))) < \<bar>ml - int (length pt)\<bar>"
  shows "memory_cycle_by_token tok ml (p # rest) pt eb = Inl (NarrowError, [])"
  using assms by (simp add: memory_cycle_by_token_def narrow_def Let_def)

text \<open>
  No other operation loses the prompt when it raises: \<open>append_message\<close> raises only in
  \<open>dispatch_memory_cycler\<close>, after the append, and the other two do not raise on a chat
  history that starts with the prompt.
\<close>

lemma apply_operation_raise_preamble_first:
  assumes "preamble_first self" and "apply_operation tok operation self = Inl (e, self')"
    and "\<forall>ml eb. operation \<noteq> Evict_By_Token ml eb"
  shows "preamble_first self'"
proof -
  from assms(1) obtain t where h: "chat_history self = prompt self # t"
    by (auto simp: preamble_first_iff)
  show ?thesis
  proof (cases operation)
    case (Append m c)
    with assms(2) h show ?thesis
      by (auto simp: append_message_def dispatch_memory_cycler_def memory_cycle_by_sentence_def
          getattr_int_def preamble_first_iff Let_def split: if_splits)
  next
    case (Evict_By_Token ml eb)
    with assms(3) show ?thesis by simp
  next
    case (Evict_By_Sentence ml eb)
    with assms(2) h show ?thesis
      by (simp add: store_history_def memory_cycle_by_sentence_def)
  next
    case Clear
    with assms(2) show ?thesis by simp
  qed
qed

text \<open>
  Claim C1, at a token eviction that raises. The claim has the entry at position 0 equal
  to the preamble after any sequence of appends, evictions and clears. With a prompt of
  2 tokens, a history of 5 tokens after it, \<open>a_max_length = 9\<close> and \<open>a_extra_budget = 4\<close>,
  the history is over budget (\<open>7 > 5\<close>) and the cut point is 7: \<open>narrow\<close> raises, the
  chat history is left empty, and the next append puts a turn at position 0.
\<close>

theorem preamble_lost_when_narrow_raises:
  "run char_tokenizer [Append ''abc'' False, Append ''de'' False, Evict_By_Token 9 4]
     (Memory_Handler char_tokenizer ''none'' 4 ''cpu'' 9 ''P:'')
   = Inl (NarrowError,
          \<lparr>memory_cycler_type = ''none'', extra_budget = 4, device = ''cpu'',
           max_length = 9, prompt = ''P:'', prompt_tensor = [80, 58],
           chat_history = []\<rparr>)
   \<and> memory_cycle_by_token char_tokenizer 9 [''P:'', ''abc'', ''de''] [80, 58] 4
       = Inl (NarrowError, [])
   \<and> \<not> preamble_first
         \<lparr>memory_cycler_type = ''none'', extra_budget = 4, device = ''cpu'',
          max_length = 9, prompt = ''P:'', prompt_tensor = [80, 58],
          chat_history = []\<rparr>
   \<and> append_message ''x'' char_tokenizer True
         \<lparr>memory_cycler_type = ''none'', extra_budget = 4, device = ''cpu'',
          max_length = 9, prompt = ''P:'', prompt_tensor = [80, 58],
          chat_history = []\<rparr>
       = Inr \<lparr>memory_cycler_type = ''none'', extra_budget = 4, device = ''cpu'',
               max_length = 9, prompt = ''P:'', prompt_tensor = [80, 58],
               chat_history = [''x'']\<rparr>"
  by code_simp

section \<open>The loop of the sentence cycler\<close>

lemma by_sentence_loop_over:
  "over_budget tok ml ps eb h \<Longrightarrow> h \<noteq> [] \<Longrightarrow>
     by_sentence_loop tok ml ps eb h = by_sentence_loop tok ml ps eb (tl h)"
  by (subst by_sentence_loop.simps) (simp add: over_budget_def)

lemma by_sentence_loop_stop:
  "\<not> over_budget tok ml ps eb h \<or> h = [] \<Longrightarrow> by_sentence_loop tok ml ps eb h = h"
  by (subst by_sentence_loop.simps) (auto simp: over_budget_def)

lemma by_sentence_loop_drop:
  "\<exists>k\<le>length h. by_sentence_loop tok ml ps eb h = drop k h
      \<and> (\<not> over_budget tok ml ps eb (drop k h) \<or> drop k h = [])
      \<and> (\<forall>j<k. over_budget tok ml ps eb (drop j h))"
proof (induction tok ml ps eb h rule: by_sentence_loop.induct)
  case (1 tok ml ps eb h)
  show ?case
  proof (cases "over_budget tok ml ps eb h \<and> h \<noteq> []")
    case True
    then have "int (length (encode tok (concat h))) + ps > ml - eb \<and> length h > 0"
      by (simp add: over_budget_def)
    from "1.IH"[OF this] obtain k where
      k: "k \<le> length (tl h)" "by_sentence_loop tok ml ps eb (tl h) = drop k (tl h)"
         "\<not> over_budget tok ml ps eb (drop k (tl h)) \<or> drop k (tl h) = []"
         "\<forall>j<k. over_budget tok ml ps eb (drop j (tl h))"
      by blast
    have d: "drop j (tl h) = drop (Suc j) h" for j
      by (simp add: drop_Suc)
    have "\<forall>j<Suc k. over_budget tok ml ps eb (drop j h)"
    proof (intro allI impI)
      fix j assume "j < Suc k"
      then show "over_budget tok ml ps eb (drop j h)"
        using True k(4) d by (cases j) auto
    qed
    moreover have "Suc k \<le> length h" using k(1) True by (cases h) auto
    moreover have "by_sentence_loop tok ml ps eb h = drop (Suc k) h"
      using True k(2) d by (simp add: by_sentence_loop_over)
    moreover have "\<not> over_budget tok ml ps eb (drop (Suc k) h) \<or> drop (Suc k) h = []"
      using k(3) d by simp
    ultimately show ?thesis by blast
  next
    case False
    then have "by_sentence_loop tok ml ps eb h = h"
      by (intro by_sentence_loop_stop) auto
    with False show ?thesis by (intro exI[of _ 0]) auto
  qed
qed

lemma by_sentence_loop_fits:
  "\<not> over_budget tok ml ps eb (by_sentence_loop tok ml ps eb h) \<or> by_sentence_loop tok ml ps eb h = []"
  using by_sentence_loop_drop[of h tok ml ps eb] by auto

lemma by_sentence_loop_idem:
  "by_sentence_loop tok ml ps eb (by_sentence_loop tok ml ps eb h) = by_sentence_loop tok ml ps eb h"
  by (rule by_sentence_loop_stop) (rule by_sentence_loop_fits)

text \<open>
  Claim C5. \<open>memory_cycle_by_sentence\<close> on a history \<open>p # rest\<close> returns \<open>p\<close> followed by
  \<open>rest\<close> without its \<open>k\<close> oldest entries, where what is left fits the budget (its token
  count plus the prompt's is at most \<open>a_max_length - a_extra_budget\<close>) or is empty, and
  every shorter removal \<open>j < k\<close> was measured and found over budget: entries go
  oldest first, one at a time, measured again after each removal.
\<close>

theorem by_sentence_postcondition:
  "\<exists>k\<le>length rest.
     memory_cycle_by_sentence tok ml (p # rest) pt eb = Inr (p # drop k rest)
     \<and> (\<not> over_budget tok ml (int (length pt)) eb (drop k rest) \<or> drop k rest = [])
     \<and> (\<forall>j<k. over_budget tok ml (int (length pt)) eb (drop j rest))"
  using by_sentence_loop_drop[of rest tok ml "int (length pt)" eb]
  by (auto simp: memory_cycle_by_sentence_def)

section \<open>Applying a cycler twice\<close>

text \<open>
  Claim C4, amended to the sentence cycler. Whatever \<open>memory_cycle_by_sentence\<close>
  returns, it returns again when applied to its own result with the same tokenizer and
  budget; and on a history whose entries after the prompt fit the budget it returns the
  history unchanged.
\<close>

theorem by_sentence_idempotent:
  "(memory_cycle_by_sentence tok ml h pt eb = Inr h' \<longrightarrow>
      memory_cycle_by_sentence tok ml h' pt eb = Inr h')
   \<and> (\<not> over_budget tok ml (int (length pt)) eb rest \<longrightarrow>
      memory_cycle_by_sentence tok ml (p # rest) pt eb = Inr (p # rest))"
  by (cases h) (auto simp: memory_cycle_by_sentence_def by_sentence_loop_idem by_sentence_loop_stop)

section \<open>Dispatching the token cycler\<close>

text \<open>
  Claim C10. For a handler whose cycler is \<open>by_token\<close>, \<open>dispatch_memory_cycler\<close> raises
  AttributeError on the attribute \<open>extra_budge\<close> before \<open>memory_cycle_by_token\<close> is called,
  so \<open>append_message\<close> with cycling appends the message and raises, and the chat history
  it leaves is the old one with the message at its end, not truncated.
\<close>

theorem dispatch_by_token_raises:
  assumes "memory_cycler_type self = ''by_token''"
  shows "dispatch_memory_cycler tok self = Inl (AttributeError, self)
       \<and> append_message a_message tok True self
           = Inl (AttributeError, self\<lparr>chat_history := chat_history self @ [a_message]\<rparr>)"
  using assms by (simp add: dispatch_memory_cycler_def append_message_def getattr_int_def)

section \<open>Popping the last entry\<close>

lemma nat_int_pred: "nat (int n - 1) = n - 1"
  by linarith

text \<open>
  Claim C9, amended. \<open>pop_memory\<close> with its default index \<open>-1\<close> removes and returns the
  last entry of any chat history that is not empty, the prompt included when it is the only
  entry; it raises IndexError only on an empty chat history.
\<close>

theorem pop_memory_last:
  "pop_memory (- 1) self =
     (if chat_history self = [] then Inl IndexError
      else Inr (last (chat_history self), self\<lparr>chat_history := butlast (chat_history self)\<rparr>))"
proof (cases "chat_history self = []")
  case True
  then show ?thesis by (simp add: pop_memory_def)
next
  case False
  then have n: "length (chat_history self) > 0" by simp
  from False n show ?thesis
    unfolding pop_memory_def Let_def
    by (simp add: last_conv_nth butlast_conv_take nat_int_pred)
qed

section \<open>The token cycler\<close>

text \<open>
  Claim C3, amended. On a history \<open>p # rest\<close> whose \<open>rest\<close> tokenizes to \<open>L\<close> tokens, if
  \<open>L\<close> plus the prompt's token count exceeds \<open>a_max_length - a_extra_budget\<close> and
  \<open>\<bar>a_max_length - prompt_tensor_size\<bar> \<le> L\<close>, then \<open>memory_cycle_by_token\<close> discards exactly
  \<open>\<bar>a_max_length - prompt_tensor_size\<bar>\<close> leading tokens, decodes the remaining ones and
  splits the text at every newline; and whenever it returns, the prompt is at position 0.
\<close>

theorem by_token_postcondition:
  "(int (length (encode tok (concat rest))) + int (length pt) > ml - eb
     \<and> \<bar>ml - int (length pt)\<bar> \<le> int (length (encode tok (concat rest)))
     \<longrightarrow> memory_cycle_by_token tok ml (p # rest) pt eb
         = Inr (p # split CHR 0x0A
                  (decode tok (drop (nat \<bar>ml - int (length pt)\<bar>) (encode tok (concat rest))))))
   \<and> (memory_cycle_by_token tok ml (p # rest) pt eb = Inr h \<longrightarrow> h \<noteq> [] \<and> h ! 0 = p)"
proof (intro conjI impI)
  assume a: "int (length (encode tok (concat rest))) + int (length pt) > ml - eb
     \<and> \<bar>ml - int (length pt)\<bar> \<le> int (length (encode tok (concat rest)))"
  let ?t = "encode tok (concat rest)"
  let ?s = "\<bar>ml - int (length pt)\<bar>"
  have "narrow ?t ?s (int (length ?t) - ?s) = Inr (drop (nat ?s) ?t)"
    using a by (simp add: narrow_def Let_def)
  with a show "memory_cycle_by_token tok ml (p # rest) pt eb
         = Inr (p # split CHR 0x0A (decode tok (drop (nat ?s) ?t)))"
    by (simp add: memory_cycle_by_token_def Let_def)
next
  assume "memory_cycle_by_token tok ml (p # rest) pt eb = Inr h"
  then show "h \<noteq> []" using by_token_keeps_prompt by fastforce
next
  assume "memory_cycle_by_token tok ml (p # rest) pt eb = Inr h"
  then show "h ! 0 = p" using by_token_keeps_prompt by fastforce
qed


theorem by_sentence_postcondition_witness:
  "memory_cycle_by_sentence char_tokenizer 6 [''P:'', ''abc'', ''de'', ''f''] [80, 58] 0
     = Inr [''P:'', ''de'', ''f'']
   \<and> \<not> over_budget char_tokenizer 6 2 0 [''de'', ''f'']
   \<and> over_budget char_tokenizer 6 2 0 [''abc'', ''de'', ''f'']"
proof -
  let ?rest = "[''abc'', ''de'', ''f'']"
  have o0: "over_budget char_tokenizer 6 2 0 (drop 0 ?rest)"
    by (simp add: over_budget_def char_tokenizer_def)
  have o1: "\<not> over_budget char_tokenizer 6 2 0 (drop 1 ?rest)"
    by (simp add: over_budget_def char_tokenizer_def)
  from by_sentence_postcondition[of ?rest char_tokenizer 6 "''P:''" "[80, 58]" 0]
  obtain k where k:
    "memory_cycle_by_sentence char_tokenizer 6 (''P:'' # ?rest) [80, 58] 0 = Inr (''P:'' # drop k ?rest)"
    "\<not> over_budget char_tokenizer 6 2 0 (drop k ?rest) \<or> drop k ?rest = []"
    "\<forall>j<k. over_budget char_tokenizer 6 2 0 (drop j ?rest)"
    by auto
  have "k \<noteq> 0" using k(2) o0 by (cases "k = 0") auto
  moreover have "k < 2" using k(3)[rule_format, of 1] o1 by (cases "k < 2") auto
  ultimately have "k = 1" by simp
  with k(1) o0 o1 show ?thesis by simp
qed

theorem by_sentence_idempotent_witness:
  "memory_cycle_by_sentence char_tokenizer 6 [''P:'', ''abc'', ''de'', ''f''] [80, 58] 0
     = Inr [''P:'', ''de'', ''f'']
   \<and> memory_cycle_by_sentence char_tokenizer 6 [''P:'', ''de'', ''f''] [80, 58] 0
     = Inr [''P:'', ''de'', ''f'']
   \<and> \<not> over_budget char_tokenizer 8 2 0 [''abc'', ''de'', ''f'']
   \<and> memory_cycle_by_sentence char_tokenizer 8 [''P:'', ''abc'', ''de'', ''f''] [80, 58] 0
     = Inr [''P:'', ''abc'', ''de'', ''f'']"
proof -
  have once: "memory_cycle_by_sentence char_tokenizer 6 [''P:'', ''abc'', ''de'', ''f''] [80, 58] 0
     = Inr [''P:'', ''de'', ''f'']"
    by code_simp
  have fits: "\<not> over_budget char_tokenizer 8 (int (length [80::int, 58])) 0 [''abc'', ''de'', ''f'']"
    by (simp add: over_budget_def char_tokenizer_def)
  from by_sentence_idempotent[where tok = char_tokenizer and ml = 6 and pt = "[80, 58]" and eb = 0
      and h = "[''P:'', ''abc'', ''de'', ''f'']" and h' = "[''P:'', ''de'', ''f'']"] once
  have twice: "memory_cycle_by_sentence char_tokenizer 6 [''P:'', ''de'', ''f''] [80, 58] 0
     = Inr [''P:'', ''de'', ''f'']"
    by simp
  from by_sentence_idempotent[where tok = char_tokenizer and ml = 8 and pt = "[80, 58]" and eb = 0
      and rest = "[''abc'', ''de'', ''f'']" and p = "''P:''"] fits
  have noop: "memory_cycle_by_sentence char_tokenizer 8 [''P:'', ''abc'', ''de'', ''f''] [80, 58] 0
     = Inr [''P:'', ''abc'', ''de'', ''f'']"
    by simp
  from once twice noop fits show ?thesis by simp
qed

text \<open>
  The token cycler is not idempotent: it cuts \<open>\<bar>a_max_length - prompt_tensor_size\<bar>\<close>
  tokens from the front each time it finds the history over budget, and a history that
  fits is emptied down to its prompt.
\<close>

theorem by_token_not_idempotent:
  "memory_cycle_by_token char_tokenizer 4 [''P:'', ''abc'', ''de''] [80, 58] 0
     = Inr [''P:'', ''cde'']
   \<and> memory_cycle_by_token char_tokenizer 4 [''P:'', ''cde''] [80, 58] 0
     = Inr [''P:'', ''e'']
   \<and> \<not> over_budget char_tokenizer 9 2 0 [''abc'', ''de'']
   \<and> memory_cycle_by_token char_tokenizer 9 [''P:'', ''abc'', ''de''] [80, 58] 0
     = Inr [''P:'']"
  by code_simp

text \<open>
  The specification's reading against the code: the code cuts 2 tokens where
  \<open>keepFrom\<close> is 3; a history that fits is not left unchanged; and when the cut point
  lies after the last token \<open>narrow\<close> raises.
\<close>

theorem by_token_counterexample:
  "memory_cycle_by_token char_tokenizer 4 [''P:'', ''abc'', ''de''] [80, 58] 0
     = Inr [''P:'', ''cde'']
   \<and> spec_by_token char_tokenizer 4 ''P:'' [''abc'', ''de''] 2 0 = [''P:'', ''de'']
   \<and> memory_cycle_by_token char_tokenizer 9 [''P:'', ''abc'', ''de''] [80, 58] 0
     = Inr [''P:'']
   \<and> spec_by_token char_tokenizer 9 ''P:'' [''abc'', ''de''] 2 0 = [''P:'', ''abc'', ''de'']
   \<and> memory_cycle_by_token char_tokenizer 9 [''P:'', ''abc'', ''de''] [80, 58] 4
     = Inl (NarrowError, [])
   \<and> spec_by_token char_tokenizer 9 ''P:'' [''abc'', ''de''] 2 4 = [''P:'', ''abcde'']"
  by code_simp

theorem by_token_postcondition_witness:
  "int (length (encode char_tokenizer (concat [''abc'', ''d\<newline>e'']))) + int (length [80::int, 58]) > 4 - 0
   \<and> \<bar>4 - int (length [80::int, 58])\<bar> \<le> int (length (encode char_tokenizer (concat [''abc'', ''d\<newline>e''])))
   \<and> memory_cycle_by_token char_tokenizer 4 [''P:'', ''abc'', ''d\<newline>e''] [80, 58] 0
        = Inr [''P:'', ''cd'', ''e'']"
proof -
  have pre: "int (length (encode char_tokenizer (concat [''abc'', ''d\<newline>e'']))) + int (length [80::int, 58]) > 4 - 0
     \<and> \<bar>4 - int (length [80::int, 58])\<bar> \<le> int (length (encode char_tokenizer (concat [''abc'', ''d\<newline>e''])))"
    by (simp add: char_tokenizer_def)
  have kept: "split CHR 0x0A (decode char_tokenizer
                (drop (nat \<bar>4 - int (length [80::int, 58])\<bar>)
                   (encode char_tokenizer (concat [''abc'', ''d\<newline>e''])))) = [''cd'', ''e'']"
    by code_simp
  note r = by_token_postcondition[where tok = char_tokenizer and rest = "[''abc'', ''d\<newline>e'']"
      and pt = "[80, 58]" and ml = 4 and eb = 0 and p = "''P:''", THEN conjunct1, rule_format, OF pre]
  from pre r[unfolded kept] show ?thesis by blast
qed

theorem dispatch_by_token_raises_witness:
  "memory_cycler_type (Memory_Handler char_tokenizer ''by_token'' 0 ''cpu'' 4 ''P:'') = ''by_token''
   \<and> append_message ''U: a long message\<newline>'' char_tokenizer True
        (Memory_Handler char_tokenizer ''by_token'' 0 ''cpu'' 4 ''P:'')
      = Inl (AttributeError,
             \<lparr>memory_cycler_type = ''by_token'', extra_budget = 0, device = ''cpu'',
              max_length = 4, prompt = ''P:'', prompt_tensor = [80, 58],
              chat_history = [''P:'', ''U: a long message\<newline>'']\<rparr>)"
  using dispatch_by_token_raises[of "Memory_Handler char_tokenizer ''by_token'' 0 ''cpu'' 4 ''P:''"
      char_tokenizer "''U: a long message\<newline>''"]
  by (simp add: Memory_Handler_def char_tokenizer_def)

text \<open>With the prompt as the only entry, \<open>pop_memory\<close> does not fail: it removes the prompt.\<close>

theorem pop_memory_counterexample:
  "length (chat_history (Memory_Handler char_tokenizer ''none'' 0 ''cpu'' 12 ''P:'')) \<le> 1
   \<and> pop_memory (- 1) (Memory_Handler char_tokenizer ''none'' 0 ''cpu'' 12 ''P:'')
     = Inr (''P:'', \<lparr>memory_cycler_type = ''none'', extra_budget = 0, device = ''cpu'',
                     max_length = 12, prompt = ''P:'', prompt_tensor = [80, 58],
                     chat_history = []\<rparr>)"
  by (simp add: pop_memory_def Memory_Handler_def char_tokenizer_def)

section \<open>Decimal digits\<close>

lemma of_char_digit_char: "d < 10 \<Longrightarrow> (of_char (digit_char d) :: nat) = 48 + d"
  by (simp add: digit_char_def)

lemma is_digit_digit_char: "d < 10 \<Longrightarrow> is_digit (digit_char d)"
  by (simp add: is_digit_def of_char_digit_char)

lemma show_nat_small: "n < 10 \<Longrightarrow> show_nat n = [digit_char n]"
  by (subst show_nat.simps) simp

lemma show_nat_large: "\<not> n < 10 \<Longrightarrow> show_nat n = show_nat (n div 10) @ [digit_char (n mod 10)]"
  by (subst show_nat.simps) simp

lemma show_nat_nonempty: "show_nat n \<noteq> []"
  by (cases "n < 10") (simp_all add: show_nat_small show_nat_large)

lemma show_nat_digits: "list_all is_digit (show_nat n)"
proof (induction n rule: show_nat.induct)
  case (1 n)
  then show ?case
    by (cases "n < 10") (simp_all add: show_nat_small show_nat_large is_digit_digit_char)
qed

lemma read_nat_snoc: "read_nat (ds @ [c]) = 10 * read_nat ds + (of_char c - 48)"
  by (simp add: read_nat_def)

lemma read_nat_show_nat: "read_nat (show_nat n) = n"
proof (induction n rule: show_nat.induct)
  case (1 n)
  show ?case
  proof (cases "n < 10")
    case True
    then show ?thesis by (simp add: show_nat_small read_nat_def of_char_digit_char)
  next
    case False
    with 1 have "read_nat (show_nat (n div 10)) = n div 10" by simp
    with False show ?thesis
      by (simp add: show_nat_large read_nat_snoc of_char_digit_char)
  qed
qed

lemma digit_char_zero: "digit_char 0 = CHR ''0''"
  by code_simp

lemma show_nat_zero: "show_nat 0 = ''0''"
  by (simp add: show_nat_small digit_char_zero)

lemma hd_show_nat_pos: "0 < n \<Longrightarrow> hd (show_nat n) \<noteq> CHR ''0''"
proof (induction n rule: show_nat.induct)
  case (1 n)
  show ?case
  proof (cases "n < 10")
    case True
    have "(of_char (digit_char n) :: nat) \<noteq> of_char CHR ''0''"
      using True "1.prems" by (simp add: of_char_digit_char)
    then have "digit_char n \<noteq> CHR ''0''" by auto
    with True show ?thesis by (simp add: show_nat_small)
  next
    case False
    then have "0 < n div 10" by simp
    with 1 False have "hd (show_nat (n div 10)) \<noteq> CHR ''0''" by simp
    with False show ?thesis by (simp add: show_nat_large show_nat_nonempty)
  qed
qed

section \<open>The scanner on a printed integer\<close>

lemma is_digit_not_punct:
  "is_digit c \<Longrightarrow> \<not> is_json_whitespace c \<and> c \<noteq> CHR ''['' \<and> c \<noteq> CHR '']'' \<and> c \<noteq> CHR '','' \<and> c \<noteq> CHR ''-''"
  by (auto simp: is_digit_def is_json_whitespace_def)

lemma takeWhile_digits:
  "list_all is_digit ds \<Longrightarrow> rest = [] \<or> \<not> is_digit (hd rest) \<Longrightarrow> takeWhile is_digit (ds @ rest) = ds"
  by (cases rest) (auto simp: list_all_iff takeWhile_append2 )

lemma dropWhile_digits:
  "list_all is_digit ds \<Longrightarrow> rest = [] \<or> \<not> is_digit (hd rest) \<Longrightarrow> dropWhile is_digit (ds @ rest) = rest"
  by (cases rest) (auto simp: list_all_iff dropWhile_append2)

lemma json_lex_show_nat:
  assumes "rest = [] \<or> \<not> is_digit (hd rest)"
  shows "json_lex (show_nat n @ rest) = cons_token (Number (int n)) (json_lex rest)"
proof (cases "n = 0")
  case True
  then show ?thesis by (simp add: show_nat_zero json_lex.simps is_json_whitespace_def)
next
  case False
  obtain c cs where s: "show_nat n = c # cs"
    using show_nat_nonempty by (cases "show_nat n") auto
  from show_nat_digits[of n] s have d: "is_digit c" "list_all is_digit cs" by simp_all
  from hd_show_nat_pos[of n] False s have z: "c \<noteq> CHR ''0''" by simp
  from read_nat_show_nat[of n] s have r: "read_nat (c # cs) = n" by simp
  from d(1) z is_digit_not_punct[OF d(1)] show ?thesis
    by (simp add: s json_lex.simps takeWhile_digits[OF d(2) assms] dropWhile_digits[OF d(2) assms] r)
qed

lemma json_lex_show_int:
  assumes "rest = [] \<or> \<not> is_digit (hd rest)"
  shows "json_lex (show_int i @ rest) = cons_token (Number i) (json_lex rest)"
proof (cases "i < 0")
  case False
  then show ?thesis by (simp add: show_int_def json_lex_show_nat[OF assms])
next
  case True
  let ?n = "nat (- i)"
  from True have p: "0 < ?n" by simp
  obtain c cs where s: "show_nat ?n = c # cs"
    using show_nat_nonempty by (cases "show_nat ?n") auto
  from show_nat_digits[of ?n] s have d: "is_digit c" "list_all is_digit cs" by simp_all
  from hd_show_nat_pos[OF p] s have z: "c \<noteq> CHR ''0''" by simp
  from read_nat_show_nat[of ?n] s have r: "read_nat (c # cs) = ?n" by simp
  have "json_lex (CHR ''-'' # c # cs @ rest) = cons_token (Number i) (json_lex rest)"
    using d(1) z True
    by (simp add: json_lex.simps is_json_whitespace_def
        takeWhile_digits[OF d(2) assms] dropWhile_digits[OF d(2) assms] r)
  with True s show ?thesis by (simp add: show_int_def)
qed


section \<open>Scanning and parsing a printed list\<close>

lemma not_digit_punct:
  "\<not> is_digit CHR '']''" "\<not> is_digit CHR '',''"
  by (simp_all add: is_digit_def)

lemma json_lex_join:
  "json_lex (join '', '' (map show_int xs) @ '']'') = Inr (int_tokens xs @ [RBracket])"
proof (induction xs rule: int_tokens.induct)
  case 1
  show ?case by (simp add: json_lex.simps is_json_whitespace_def cons_token_def)
next
  case (2 x)
  have "json_lex (show_int x @ '']'') = cons_token (Number x) (json_lex '']'')"
    by (rule json_lex_show_int) (simp add: not_digit_punct)
  then show ?case by (simp add: json_lex.simps is_json_whitespace_def cons_token_def)
next
  case (3 x y ys)
  let ?rest = "join '', '' (map show_int (y # ys)) @ '']''"
  have "json_lex (show_int x @ '', '' @ ?rest) = cons_token (Number x) (json_lex ('', '' @ ?rest))"
    by (rule json_lex_show_int) (simp add: not_digit_punct)
  moreover have "json_lex ('', '' @ ?rest) = cons_token Comma (json_lex ?rest)"
    by (simp add: json_lex.simps(2)[of "CHR '',''"] json_lex.simps(2)[of "CHR '' ''"] is_json_whitespace_def)
  ultimately show ?case using 3 by (simp add: cons_token_def)
qed

lemma json_lex_dumps:
  "json_lex (json_dumps_int_list xs) = Inr (LBracket # int_tokens xs @ [RBracket])"
  by (simp add: json_dumps_int_list_def json_lex.simps(2)[of "CHR ''[''"] is_json_whitespace_def
      json_lex_join cons_token_def)

lemma parse_int_tokens:
  "parse_tokens [acc] Expect_Value (int_tokens (x # xs) @ [RBracket])
     = Inr (PyList (rev acc @ map PyInt (x # xs)))"
proof (induction xs arbitrary: acc x)
  case Nil
  show ?case by (simp add: deliver_def close_array_def)
next
  case (Cons y ys)
  from Cons[of "PyInt x # acc" y] show ?case by (simp add: deliver_def)
qed

lemma parse_open_int_tokens:
  "parse_tokens [[]] Expect_Value_Or_Close (int_tokens xs @ [RBracket]) = Inr (PyList (map PyInt xs))"
proof (cases xs)
  case Nil
  then show ?thesis by (simp add: close_array_def deliver_def)
next
  case (Cons x xs')
  have "parse_tokens [[]] Expect_Value_Or_Close (int_tokens (x # xs') @ [RBracket])
          = parse_tokens [[]] Expect_Value (int_tokens (x # xs') @ [RBracket])"
    by (cases xs') simp_all
  with Cons parse_int_tokens[of "[]" x xs'] show ?thesis by simp
qed

lemma parse_dumps:
  "parse_tokens [] Expect_Value (LBracket # int_tokens xs @ [RBracket]) = Inr (PyList (map PyInt xs))"
  by (simp add: parse_open_int_tokens)

lemma in_fragment_show_nat: "list_all in_fragment (show_nat n)"
  using show_nat_digits[of n] by (auto simp: list_all_iff in_fragment_def)

lemma in_fragment_show_int: "list_all in_fragment (show_int i)"
  using in_fragment_show_nat by (simp add: show_int_def in_fragment_def)

lemma in_fragment_join: "list_all in_fragment (join '', '' (map show_int xs))"
  by (induction xs rule: int_tokens.induct)
     (simp_all add: in_fragment_show_int, simp_all add: in_fragment_def is_json_whitespace_def)

lemma in_fragment_dumps: "list_all in_fragment (json_dumps_int_list xs)"
  by (simp add: json_dumps_int_list_def in_fragment_join, simp add: in_fragment_def)

lemma json_loads_dumps: "json_loads (json_dumps_int_list xs) = Inr (PyList (map PyInt xs))"
  by (simp add: json_loads_def in_fragment_dumps json_lex_dumps parse_open_int_tokens)

section \<open>ASCII text and the utf-8 codec\<close>

lemma in_fragment_ascii: "in_fragment c \<Longrightarrow> (of_char c :: nat) < 128"
  by (auto simp: in_fragment_def is_digit_def is_json_whitespace_def)

lemma utf8_encode_ascii: "list_all (\<lambda>c. (of_char c :: nat) < 128) s \<Longrightarrow> utf8_encode s = s"
  by (induction s) (simp_all add: utf8_encode_def)

lemma utf8_decode_ascii: "list_all (\<lambda>c. (of_char c :: nat) < 128) s \<Longrightarrow> utf8_decode s = Inr s"
  by (induction s rule: utf8_decode.induct) (simp_all add: cons_char_def)

lemma dumps_ascii: "list_all (\<lambda>c. (of_char c :: nat) < 128) (json_dumps_int_list xs)"
  using in_fragment_dumps[of xs] in_fragment_ascii by (auto simp: list_all_iff)

section \<open>Base64\<close>

lemma length_b64_alphabet: "length b64_alphabet = 64"
  by (simp add: b64_alphabet_def)

lemma distinct_b64_alphabet: "distinct b64_alphabet"
  by (simp add: b64_alphabet_def)

lemma index_of_nth: "distinct xs \<Longrightarrow> i < length xs \<Longrightarrow> index_of (xs ! i) xs = Some i"
proof (induction xs arbitrary: i)
  case Nil
  then show ?case by simp
next
  case (Cons x xs)
  show ?case
  proof (cases i)
    case 0
    then show ?thesis by simp
  next
    case (Suc j)
    with Cons.prems have "xs ! j \<in> set xs" "x \<notin> set xs" by auto
    then have "x \<noteq> xs ! j" by auto
    with Cons Suc show ?thesis by auto
  qed
qed

lemma index_of_None: "x \<notin> set xs \<Longrightarrow> index_of x xs = None"
  by (induction xs) auto

lemma b64_char_in: "v < 64 \<Longrightarrow> b64_char v \<in> set b64_alphabet"
  by (simp add: b64_char_def length_b64_alphabet)

lemma table_b64_char: "v < 64 \<Longrightarrow> table_a2b_base64 (b64_char v) = Some v"
  by (simp add: table_a2b_base64_def b64_char_def index_of_nth distinct_b64_alphabet
      length_b64_alphabet)

lemma pad_not_in_alphabet: "CHR ''='' \<notin> set b64_alphabet"
  by (simp add: b64_alphabet_def)

lemma quote_not_in_alphabet: "CHR 0x22 \<notin> set b64_alphabet"
  by (simp add: b64_alphabet_def)

lemma b64_char_not_pad: "v < 64 \<Longrightarrow> b64_char v \<noteq> CHR ''=''"
  using b64_char_in pad_not_in_alphabet by metis

lemma of_char_less_256: "(of_char c :: nat) < 256"
  by simp

lemma sextet_bounds:
  fixes x y z :: nat
  assumes "x < 256" "y < 256" "z < 256"
  shows "x div 4 < 64" "(x mod 4) * 16 + y div 16 < 64" "(x mod 4) * 16 < 64"
    "(y mod 16) * 4 + z div 64 < 64" "(y mod 16) * 4 < 64" "z mod 64 < 64"
  using assms by linarith+

lemma div_mod_field:
  fixes r q :: nat
  shows "q < 16 \<Longrightarrow> (r * 16 + q) div 16 = r" "q < 16 \<Longrightarrow> (r * 16 + q) mod 16 = q"
    "q < 4 \<Longrightarrow> (r * 4 + q) div 4 = r" "q < 4 \<Longrightarrow> (r * 4 + q) mod 4 = q"
    "r * 16 div 16 = r" "r * 16 mod 16 = 0" "r * 4 div 4 = r" "r * 4 mod 4 = 0"
  by simp_all

lemma byte_fields:
  fixes y :: nat
  assumes "y < 256"
  shows "y div 16 < 16" "y div 64 < 4"
  using assms by linarith+

lemma sextet_join:
  fixes x y z :: nat
  assumes "y < 256" "z < 256"
  shows "x div 4 * 4 + ((x mod 4) * 16 + y div 16) div 16 = x"
    "x div 4 * 4 + ((x mod 4) * 16) div 16 = x"
    "((x mod 4) * 16 + y div 16) mod 16 * 16 + ((y mod 16) * 4 + z div 64) div 4 = y"
    "((x mod 4) * 16 + y div 16) mod 16 * 16 + ((y mod 16) * 4) div 4 = y"
    "((y mod 16) * 4 + z div 64) mod 4 * 64 + z mod 64 = z"
  using byte_fields[OF assms(1)] byte_fields[OF assms(2)]
  by (simp_all add: div_mod_field)


lemma a2b_skip:
  "list_all (\<lambda>c. c \<noteq> CHR ''='' \<and> table_a2b_base64 c = None) rest \<Longrightarrow>
     a2b_base64_loop 0 l p out rest = Inr out"
  by (induction rest) simp_all

lemma a2b_quad:
  assumes "v1 < 64" "v2 < 64" "v3 < 64" "v4 < 64"
  shows "a2b_base64_loop 0 l p out (b64_char v1 # b64_char v2 # b64_char v3 # b64_char v4 # rest)
     = a2b_base64_loop 0 0 0
         (out @ [char_of (v1 * 4 + v2 div 16), char_of (v2 mod 16 * 16 + v3 div 4),
                 char_of (v3 mod 4 * 64 + v4)]) rest"
  using assms by (simp add: table_b64_char b64_char_not_pad)

lemma a2b_pair:
  assumes "v1 < 64" "v2 < 64"
  shows "a2b_base64_loop 0 l p out (b64_char v1 # b64_char v2 # CHR ''='' # CHR ''='' # rest)
     = Inr (out @ [char_of (v1 * 4 + v2 div 16)])"
  using assms by (simp add: table_b64_char b64_char_not_pad)

lemma a2b_triple:
  assumes "v1 < 64" "v2 < 64" "v3 < 64"
  shows "a2b_base64_loop 0 l p out (b64_char v1 # b64_char v2 # b64_char v3 # CHR ''='' # rest)
     = Inr (out @ [char_of (v1 * 4 + v2 div 16), char_of (v2 mod 16 * 16 + v3 div 4)])"
  using assms by (simp add: table_b64_char b64_char_not_pad)

lemma a2b_b64encode:
  "list_all (\<lambda>c. c \<noteq> CHR ''='' \<and> table_a2b_base64 c = None) rest \<Longrightarrow>
     a2b_base64_loop 0 l p out (b64encode bs @ rest) = Inr (out @ bs)"
proof (induction bs arbitrary: l p out rule: b64encode.induct)
  case 1
  then show ?case by (simp add: a2b_skip)
next
  case (2 a)
  let ?x = "of_char a :: nat"
  note bd = sextet_bounds[OF of_char_less_256[of a] of_char_less_256[of a] of_char_less_256[of a]]
  have "?x div 4 * 4 + (?x mod 4 * 16) div 16 = ?x"
    by (rule sextet_join(2)[OF of_char_less_256[of a] of_char_less_256[of a]])
  then have b1: "char_of (?x div 4 * 4 + (?x mod 4 * 16) div 16) = a"
    by (simp only: char_of_char)
  have "a2b_base64_loop 0 l p out (b64encode [a] @ rest)
      = Inr (out @ [char_of (?x div 4 * 4 + (?x mod 4 * 16) div 16)])"
    unfolding b64encode.simps append_Cons append_Nil
    by (rule a2b_pair[OF bd(1) bd(3)])
  then show ?case by (simp only: b1)
next
  case (3 a b)
  let ?x = "of_char a :: nat"
  let ?y = "of_char b :: nat"
  note bd = sextet_bounds[OF of_char_less_256[of a] of_char_less_256[of b] of_char_less_256[of b]]
  note j = sextet_join[OF of_char_less_256[of b] of_char_less_256[of b]]
  have "?x div 4 * 4 + (?x mod 4 * 16 + ?y div 16) div 16 = ?x" by (rule j(1))
  then have b1: "char_of (?x div 4 * 4 + (?x mod 4 * 16 + ?y div 16) div 16) = a"
    by (simp only: char_of_char)
  have "(?x mod 4 * 16 + ?y div 16) mod 16 * 16 + (?y mod 16 * 4) div 4 = ?y" by (rule j(4))
  then have b2: "char_of ((?x mod 4 * 16 + ?y div 16) mod 16 * 16 + (?y mod 16 * 4) div 4) = b"
    by (simp only: char_of_char)
  have "a2b_base64_loop 0 l p out (b64encode [a, b] @ rest)
      = Inr (out @ [char_of (?x div 4 * 4 + (?x mod 4 * 16 + ?y div 16) div 16),
                    char_of ((?x mod 4 * 16 + ?y div 16) mod 16 * 16 + (?y mod 16 * 4) div 4)])"
    unfolding b64encode.simps append_Cons append_Nil
    by (rule a2b_triple[OF bd(1) bd(2) bd(5)])
  then show ?case by (simp only: b1 b2)
next
  case (4 a b c bs)
  let ?x = "of_char a :: nat"
  let ?y = "of_char b :: nat"
  let ?z = "of_char c :: nat"
  note bd = sextet_bounds[OF of_char_less_256[of a] of_char_less_256[of b] of_char_less_256[of c]]
  note j = sextet_join[OF of_char_less_256[of b] of_char_less_256[of c]]
  have "?x div 4 * 4 + (?x mod 4 * 16 + ?y div 16) div 16 = ?x" by (rule j(1))
  then have b1: "char_of (?x div 4 * 4 + (?x mod 4 * 16 + ?y div 16) div 16) = a"
    by (simp only: char_of_char)
  have "(?x mod 4 * 16 + ?y div 16) mod 16 * 16 + (?y mod 16 * 4 + ?z div 64) div 4 = ?y"
    by (rule j(3))
  then have b2: "char_of ((?x mod 4 * 16 + ?y div 16) mod 16 * 16 + (?y mod 16 * 4 + ?z div 64) div 4) = b"
    by (simp only: char_of_char)
  have "(?y mod 16 * 4 + ?z div 64) mod 4 * 64 + ?z mod 64 = ?z" by (rule j(5))
  then have b3: "char_of ((?y mod 16 * 4 + ?z div 64) mod 4 * 64 + ?z mod 64) = c"
    by (simp only: char_of_char)
  have "a2b_base64_loop 0 l p out (b64encode (a # b # c # bs) @ rest)
      = a2b_base64_loop 0 0 0
          (out @ [char_of (?x div 4 * 4 + (?x mod 4 * 16 + ?y div 16) div 16),
                  char_of ((?x mod 4 * 16 + ?y div 16) mod 16 * 16 + (?y mod 16 * 4 + ?z div 64) div 4),
                  char_of ((?y mod 16 * 4 + ?z div 64) mod 4 * 64 + ?z mod 64)])
          (b64encode bs @ rest)"
    unfolding b64encode.simps append_Cons append_Nil
    by (rule a2b_quad[OF bd(1) bd(2) bd(4) bd(6)])
  also have "\<dots> = a2b_base64_loop 0 0 0 (out @ [a, b, c]) (b64encode bs @ rest)"
    by (simp only: b1 b2 b3)
  also have "\<dots> = Inr ((out @ [a, b, c]) @ bs)"
    by (rule "4.IH"[OF "4.prems"])
  finally show ?case by simp
qed

lemma b64encode_chars: "set (b64encode bs) \<subseteq> insert CHR ''='' (set b64_alphabet)"
proof (induction bs rule: b64encode.induct)
  case 1
  show ?case by simp
next
  case (2 a)
  note bd = sextet_bounds[OF of_char_less_256[of a] of_char_less_256[of a] of_char_less_256[of a]]
  show ?case using b64_char_in[OF bd(1)] b64_char_in[OF bd(3)] by simp
next
  case (3 a b)
  note bd = sextet_bounds[OF of_char_less_256[of a] of_char_less_256[of b] of_char_less_256[of b]]
  show ?case using b64_char_in[OF bd(1)] b64_char_in[OF bd(2)] b64_char_in[OF bd(5)] by simp
next
  case (4 a b c bs)
  note bd = sextet_bounds[OF of_char_less_256[of a] of_char_less_256[of b] of_char_less_256[of c]]
  show ?case
    using 4 b64_char_in[OF bd(1)] b64_char_in[OF bd(2)] b64_char_in[OF bd(4)] b64_char_in[OF bd(6)]
    by auto
qed

lemma alphabet_plain:
  "list_all (\<lambda>c. (of_char c :: nat) < 128 \<and> json_escape c = [c]) (CHR ''='' # b64_alphabet)"
  by (simp add: b64_alphabet_def json_escape_def)

section \<open>The round trip of the request path\<close>

lemma b64encode_plain:
  "list_all (\<lambda>c. (of_char c :: nat) < 128 \<and> json_escape c = [c]) (b64encode bs)"
  using b64encode_chars[of bs] alphabet_plain by (auto simp: list_all_iff)

lemma concat_json_escape_plain: "list_all (\<lambda>c. json_escape c = [c]) s \<Longrightarrow> concat (map json_escape s) = s"
  by (induction s) simp_all

lemma json_dumps_str_plain:
  "list_all (\<lambda>c. json_escape c = [c]) s \<Longrightarrow> json_dumps_str s = CHR 0x22 # s @ [CHR 0x22]"
  by (simp add: json_dumps_str_def concat_json_escape_plain)

lemma get_encoded_str_from_token_list_eq:
  "get_encoded_str_from_token_list xs
     = Inr (CHR 0x22 # b64encode (json_dumps_int_list xs) @ [CHR 0x22])"
proof -
  have a: "list_all (\<lambda>c. (of_char c :: nat) < 128) (b64encode (json_dumps_int_list xs))"
    and e: "list_all (\<lambda>c. json_escape c = [c]) (b64encode (json_dumps_int_list xs))"
    using b64encode_plain[of "json_dumps_int_list xs"] by (auto simp: list_all_iff)
  show ?thesis
    by (simp add: get_encoded_str_from_token_list_def utf8_encode_ascii[OF dumps_ascii]
        utf8_decode_ascii[OF a] json_dumps_str_plain[OF e])
qed

lemma b64decode_quoted: "b64decode (CHR 0x22 # b64encode bs @ [CHR 0x22]) = Inr bs"
proof -
  have q: "table_a2b_base64 CHR 0x22 = None"
    by (simp add: table_a2b_base64_def index_of_None quote_not_in_alphabet)
  have a: "list_all (\<lambda>c. (of_char c :: nat) < 128) (CHR 0x22 # b64encode bs @ [CHR 0x22])"
    using b64encode_plain[of bs] by (auto simp: list_all_iff)
  have "a2b_base64_loop 0 0 0 [] (b64encode bs @ [CHR 0x22]) = Inr ([] @ bs)"
    by (rule a2b_b64encode) (simp add: q)
  then have "a2b_base64_loop 0 0 0 [] (CHR 0x22 # b64encode bs @ [CHR 0x22]) = Inr bs"
    by (simp add: q)
  with a show ?thesis by (simp add: b64decode_def)
qed

lemma decode_quoted_dumps:
  "decode_encoded_tokenized_tensor (CHR 0x22 # b64encode (json_dumps_int_list xs) @ [CHR 0x22])
     = Inr (PyList (map PyInt xs))"
  by (simp add: decode_encoded_tokenized_tensor_def b64decode_quoted
      utf8_decode_ascii[OF dumps_ascii] json_loads_dumps)

lemma get_encoded_chat_history_eq:
  "get_encoded_chat_history tok self
     = Inr (CHR 0x22 # b64encode (json_dumps_int_list (encode tok (concat (chat_history self)))) @ [CHR 0x22])"
  by (simp add: get_encoded_chat_history_def get_encoded_str_from_token_list_eq)

text \<open>
  Claim C6. For every chat history, \<open>get_encoded_chat_history\<close> produces a wire string,
  and base64-decoding that string and parsing the decoded bytes as JSON, which is what
  \<open>decode_encoded_tokenized_tensor\<close> does, gives back exactly the list of token ids that
  the tokenizer made of the joined entries. The quotes that the outer \<open>json.dumps\<close> puts
  around the base64 text are outside the base64 alphabet, and \<open>b64decode\<close> skips them.
\<close>

theorem codec_round_trip:
  "\<exists>wire. get_encoded_chat_history tok self = Inr wire
      \<and> decode_encoded_tokenized_tensor wire
          = Inr (PyList (map PyInt (encode tok (concat (chat_history self)))))"
  by (simp add: get_encoded_chat_history_eq decode_quoted_dumps)

text \<open>The wire string of a chat history that holds the prompt \<open>P:\<close> only.\<close>

lemma codec_example:
  "get_encoded_chat_history char_tokenizer (Memory_Handler char_tokenizer ''none'' 0 ''cpu'' 12 ''P:'')
     = Inr [CHR 0x22, CHR ''W'', CHR ''z'', CHR ''g'', CHR ''w'', CHR ''L'', CHR ''C'', CHR ''A'',
            CHR ''1'', CHR ''O'', CHR ''F'', CHR ''0'', CHR ''='', CHR 0x22]
   \<and> decode_encoded_tokenized_tensor
        [CHR 0x22, CHR ''W'', CHR ''z'', CHR ''g'', CHR ''w'', CHR ''L'', CHR ''C'', CHR ''A'',
         CHR ''1'', CHR ''O'', CHR ''F'', CHR ''0'', CHR ''='', CHR 0x22]
     = Inr (PyList [PyInt 80, PyInt 58])"
  by code_simp

section \<open>The error codes of a generation request\<close>

lemma request_generation_success:
  "json r = Inr body \<Longrightarrow> \<not> (400 \<le> status_code r \<and> status_code r < 600) \<Longrightarrow>
     request_generation (Inr r) = Inr body"
  by (auto simp: request_generation_def raise_for_status_def)

lemma request_generation_codes:
  "exc_class exc = Timeout \<Longrightarrow> request_generation (Inl exc) = Inr (PyInt 0)"
  "exc_class exc = RequestException \<Longrightarrow> request_generation (Inl exc) = Inr (PyInt (- 1))"
  "exc_class exc = OtherException \<Longrightarrow> request_generation (Inl exc) = Inr (PyInt (- 2))"
  by (simp_all add: request_generation_def)

lemma request_generation_status_raises:
  "json r = Inr body \<Longrightarrow> 400 \<le> status_code r \<Longrightarrow> status_code r < 600 \<Longrightarrow>
     request_generation (Inr r) = Inl AttributeError"
  by (simp add: request_generation_def raise_for_status_def getattr_def)

lemma request_generation_bad_body:
  "json r = Inl exc \<Longrightarrow> exc_class exc = RequestException \<Longrightarrow>
     request_generation (Inr r) = Inr (PyInt (- 1))"
  by (simp add: request_generation_def)

text \<open>
  Claim C7, at a response with status 500 and a JSON body. The claim has
  \<open>request_generation\<close> return the status code; the handler reads the attribute
  \<open>code\<close>, which the exception raised by \<open>raise_for_status\<close> does not have, and the
  AttributeError leaves the function.
\<close>

theorem request_generation_http_500:
  "request_generation (Inr \<lparr>status_code = 500, json = Inr PyOther\<rparr>) = Inl AttributeError"
  by (simp add: request_generation_def raise_for_status_def getattr_def)

section \<open>A failed generation\<close>


lemma append_message_no_cycler:
  "memory_cycler_type self \<noteq> ''by_sentence'' \<Longrightarrow> memory_cycler_type self \<noteq> ''by_token'' \<Longrightarrow>
     append_message a_message tok c self = Inr (self\<lparr>chat_history := chat_history self @ [a_message]\<rparr>)"
  by (simp add: append_message_def dispatch_memory_cycler_def Let_def)

lemma validate_generation_int:
  "validate_generation (PyInt code) None (Some a_message) self = Inr (False, self)"
  by (simp add: validate_generation_def)

text \<open>
  Claim C2, amended. When the generation request fails (\<open>request_generation\<close> raises or
  returns an integer error code, as it does for an HTTP error status),
  \<open>send_discord_message\<close> leaves the transcript as it was when the request was sent, with
  the user's turn and the bare placeholder \<open>Bot:\<close> still in it: nothing is rolled back.
  Without a memory cycler the transcript is the one before the call with these two entries
  at its end.
\<close>

theorem failed_generation_keeps_placeholder:
  assumes "append_message (author_name a_message @ '': '' @ content a_message @ [CHR 0x0A])
             (tokenizer self) True (memories self) = Inr m1"
    and "append_message (bot_name self @ '':'') (tokenizer self) True m1 = Inr m2"
    and "\<forall>wire. generation_failed (request_generation (a_backend wire))"
  shows "memories (provider_after (send_discord_message a_backend a_message self)) = m2
       \<and> (memory_cycler_type (memories self) \<noteq> ''by_sentence''
            \<and> memory_cycler_type (memories self) \<noteq> ''by_token''
          \<longrightarrow> chat_history m2 = chat_history (memories self)
                 @ [author_name a_message @ '': '' @ content a_message @ [CHR 0x0A],
                    bot_name self @ '':''])"
proof
  let ?wire = "CHR 0x22 # b64encode (json_dumps_int_list (encode (tokenizer self) (concat (chat_history m2)))) @ [CHR 0x22]"
  from assms(3) have f: "generation_failed (request_generation (a_backend ?wire))" by blast
  show "memories (provider_after (send_discord_message a_backend a_message self)) = m2"
  proof (cases "request_generation (a_backend ?wire)")
    case (Inl e)
    with assms(1,2) show ?thesis
      by (simp add: send_discord_message_def get_encoded_chat_history_eq provider_after_def Let_def)
  next
    case (Inr v)
    with f obtain code where "v = PyInt code"
      by (cases v) (simp_all add: generation_failed_def)
    with Inr assms(1,2) show ?thesis
      by (simp add: send_discord_message_def get_encoded_chat_history_eq
          validate_generation_int provider_after_def Let_def)
  qed
next
  show "memory_cycler_type (memories self) \<noteq> ''by_sentence''
            \<and> memory_cycler_type (memories self) \<noteq> ''by_token''
          \<longrightarrow> chat_history m2 = chat_history (memories self)
                 @ [author_name a_message @ '': '' @ content a_message @ [CHR 0x0A],
                    bot_name self @ '':'']"
  proof
    assume n: "memory_cycler_type (memories self) \<noteq> ''by_sentence''
            \<and> memory_cycler_type (memories self) \<noteq> ''by_token''"
    with assms(1) have m1: "m1 = (memories self)\<lparr>chat_history := chat_history (memories self)
         @ [author_name a_message @ '': '' @ content a_message @ [CHR 0x0A]]\<rparr>"
      by (simp add: append_message_no_cycler)
    with n assms(2) show "chat_history m2 = chat_history (memories self)
                 @ [author_name a_message @ '': '' @ content a_message @ [CHR 0x0A],
                    bot_name self @ '':'']"
      by (auto simp: append_message_no_cycler)
  qed
qed


theorem failed_generation_keeps_placeholder_witness:
  "generation_failed (request_generation (Inr \<lparr>status_code = 500, json = Inr PyOther\<rparr>))
   \<and> chat_history (memories (provider_after
         (send_discord_message (\<lambda>wire. Inr \<lparr>status_code = 500, json = Inr PyOther\<rparr>)
            example_message (example_provider ''none''))))
       = [''P:'', ''alice: hi\<newline>'', ''Bot:'']"
proof -
  let ?self = "example_provider ''none''"
  let ?backend = "\<lambda>wire :: string. Inr \<lparr>status_code = 500, json = Inr PyOther\<rparr> :: py_exception + response"
  have a1: "append_message (author_name example_message @ '': '' @ content example_message @ [CHR 0x0A])
              (tokenizer ?self) True (memories ?self)
            = Inr ((memories ?self)\<lparr>chat_history := [''P:'', ''alice: hi\<newline>'']\<rparr>)"
    by (simp add: example_provider_def example_message_def append_message_def
        dispatch_memory_cycler_def Memory_Handler_def Let_def)
  have a2: "append_message (bot_name ?self @ '':'') (tokenizer ?self) True
              ((memories ?self)\<lparr>chat_history := [''P:'', ''alice: hi\<newline>'']\<rparr>)
            = Inr ((memories ?self)\<lparr>chat_history := [''P:'', ''alice: hi\<newline>'', ''Bot:'']\<rparr>)"
    by (simp add: example_provider_def append_message_def
        dispatch_memory_cycler_def Memory_Handler_def Let_def)
  have f: "generation_failed (request_generation (Inr \<lparr>status_code = 500, json = Inr PyOther\<rparr>))"
    by (simp add: generation_failed_def request_generation_def raise_for_status_def getattr_def)
  then have g: "\<forall>wire. generation_failed (request_generation (?backend wire))"
    by simp
  from failed_generation_keeps_placeholder[OF a1 a2 g] f show ?thesis
    by simp
qed

text \<open>
  A status 500 with a JSON body, where \<open>request_generation\<close> raises, and with a body that is
  not JSON, where it returns \<open>-1\<close>: the placeholder stays either way.
\<close>

theorem failed_generation_counterexample:
  "chat_history (memories (example_provider ''none'')) = [''P:'']
   \<and> chat_history (memories (provider_after
         (send_discord_message (\<lambda>wire. Inr \<lparr>status_code = 500, json = Inr PyOther\<rparr>)
            example_message (example_provider ''none''))))
       = [''P:'', ''alice: hi\<newline>'', ''Bot:'']
   \<and> chat_history (memories (provider_after
         (send_discord_message
            (\<lambda>wire. Inr \<lparr>status_code = 500,
                            json = Inl \<lparr>exc_class = RequestException, attributes = []\<rparr>\<rparr>)
            example_message (example_provider ''none''))))
       = [''P:'', ''alice: hi\<newline>'', ''Bot:'']"
  by code_simp

section \<open>A generation of nothing\<close>




text \<open>The terminal provider never reaches the request: a turn of \<open>chat\<close> raises.\<close>

lemma chat_turn_raises:
  "user_input \<noteq> ''!quit'' \<Longrightarrow> \<exists>e self'. chat_turn user_input self = Inl (e, self')"
  by (auto simp: chat_turn_def Let_def split: sum.splits)

end
